theory Spec2Isabelle
  imports Complex_Main "HOL-Library.Sublist" "HOL-Library.Multiset"
begin

section \<open>JavaScript numbers and strings\<close>

text \<open>
  A JavaScript number is modelled as a real number or one of the three special values
  \<^verbatim>\<open>NaN\<close>, \<^verbatim>\<open>-Infinity\<close>, \<^verbatim>\<open>Infinity\<close>. Rounding, overflow to infinity and the sign of
  zero are not modelled: arithmetic on finite values is exact. The operations below
  follow the ECMAScript rules for the special values.
\<close>

datatype jsnum = NaN | NInf | PInf | Num real

fun js_neg :: "jsnum \<Rightarrow> jsnum" where
  "js_neg NaN = NaN"
| "js_neg NInf = PInf"
| "js_neg PInf = NInf"
| "js_neg (Num a) = Num (- a)"

fun js_add :: "jsnum \<Rightarrow> jsnum \<Rightarrow> jsnum" where
  "js_add (Num a) (Num b) = Num (a + b)"
| "js_add NaN y = NaN"
| "js_add x NaN = NaN"
| "js_add PInf NInf = NaN"
| "js_add NInf PInf = NaN"
| "js_add PInf y = PInf"
| "js_add x PInf = PInf"
| "js_add NInf y = NInf"
| "js_add x NInf = NInf"

definition js_sub :: "jsnum \<Rightarrow> jsnum \<Rightarrow> jsnum" where
  "js_sub x y = js_add x (js_neg y)"

fun js_mul :: "jsnum \<Rightarrow> jsnum \<Rightarrow> jsnum" where
  "js_mul (Num a) (Num b) = Num (a * b)"
| "js_mul NaN y = NaN"
| "js_mul x NaN = NaN"
| "js_mul (Num a) y = (if a = 0 then NaN else if 0 < a then y else js_neg y)"
| "js_mul x (Num b) = (if b = 0 then NaN else if 0 < b then x else js_neg x)"
| "js_mul x y = (if x = y then PInf else NInf)"

fun js_div :: "jsnum \<Rightarrow> jsnum \<Rightarrow> jsnum" where
  "js_div (Num a) (Num b) =
     (if b = 0 then (if a = 0 then NaN else if 0 < a then PInf else NInf)
      else Num (a / b))"
| "js_div NaN y = NaN"
| "js_div x NaN = NaN"
| "js_div (Num a) y = Num 0"
| "js_div x (Num b) = (if 0 \<le> b then x else js_neg x)"
| "js_div x y = NaN"

text \<open>\<^verbatim>\<open>a < b\<close>: false as soon as one side is \<^verbatim>\<open>NaN\<close>.\<close>

fun js_lt :: "jsnum \<Rightarrow> jsnum \<Rightarrow> bool" where
  "js_lt (Num a) (Num b) = (a < b)"
| "js_lt NaN y = False"
| "js_lt x NaN = False"
| "js_lt PInf y = False"
| "js_lt x NInf = False"
| "js_lt x PInf = True"
| "js_lt NInf y = True"

definition js_gt :: "jsnum \<Rightarrow> jsnum \<Rightarrow> bool" where
  "js_gt x y = js_lt y x"

definition js_ge :: "jsnum \<Rightarrow> jsnum \<Rightarrow> bool" where
  "js_ge x y = (x \<noteq> NaN \<and> y \<noteq> NaN \<and> \<not> js_lt x y)"

definition js_le :: "jsnum \<Rightarrow> jsnum \<Rightarrow> bool" where
  "js_le x y = js_ge y x"

text \<open>\<^verbatim>\<open>Math.min\<close> and \<^verbatim>\<open>Math.max\<close> of two arguments: \<^verbatim>\<open>NaN\<close> if one of them is.\<close>

definition Math_min :: "jsnum \<Rightarrow> jsnum \<Rightarrow> jsnum" where
  "Math_min x y = (if x = NaN \<or> y = NaN then NaN else if js_lt x y then x else y)"

definition Math_max :: "jsnum \<Rightarrow> jsnum \<Rightarrow> jsnum" where
  "Math_max x y = (if x = NaN \<or> y = NaN then NaN else if js_lt x y then y else x)"

text \<open>A number is falsy when it is zero or \<^verbatim>\<open>NaN\<close>.\<close>

definition falsy :: "jsnum \<Rightarrow> bool" where
  "falsy x = (x = NaN \<or> x = Num 0)"

text \<open>The interval of valid blend-target intensities.\<close>

definition unit_interval :: "jsnum \<Rightarrow> bool" where
  "unit_interval x = (case x of Num r \<Rightarrow> 0 \<le> r \<and> r \<le> 1 | _ \<Rightarrow> False)"

text \<open>
  Strings are lists of 8-bit characters. \<^verbatim>\<open>toLowerCase\<close> maps the letters A to Z to a to z
  and leaves every other character alone (the Unicode special cases are outside the model);
  \<^verbatim>\<open>s.includes(sub)\<close> holds when \<open>sub\<close> occurs in \<open>s\<close> as a contiguous block.
\<close>

definition lower_char :: "char \<Rightarrow> char" where
  "lower_char c =
     (case map_of (zip ''ABCDEFGHIJKLMNOPQRSTUVWXYZ'' ''abcdefghijklmnopqrstuvwxyz'') c of
        Some d \<Rightarrow> d
      | None \<Rightarrow> c)"

definition toLowerCase :: "string \<Rightarrow> string" where
  "toLowerCase s = map lower_char s"

fun str_includes :: "string \<Rightarrow> string \<Rightarrow> bool" where
  "str_includes [] sub = (sub = [])"
| "str_includes (c # cs) sub = (prefix sub (c # cs) \<or> str_includes cs sub)"

section \<open>Error taxonomy and recovery table (src/utils/lipsyncErrorHandler.js)\<close>

text \<open>
  \<^verbatim>\<open>LIPSYNC_ERROR_TYPES\<close> maps six symbolic names to six string tags; the functions of the
  module pass the tags around as plain strings, so the model does too.
\<close>

definition INITIALIZATION_FAILED :: string where
  "INITIALIZATION_FAILED = ''initialization_failed''"

definition AUDIO_CONNECTION_FAILED :: string where
  "AUDIO_CONNECTION_FAILED = ''audio_connection_failed''"

definition PROCESSING_ERROR :: string where
  "PROCESSING_ERROR = ''processing_error''"

definition BROWSER_UNSUPPORTED :: string where
  "BROWSER_UNSUPPORTED = ''browser_unsupported''"

definition CONTEXT_ERROR :: string where
  "CONTEXT_ERROR = ''context_error''"

definition UNKNOWN_ERROR :: string where
  "UNKNOWN_ERROR = ''unknown_error''"

definition LIPSYNC_ERROR_TYPES :: "string list" where
  "LIPSYNC_ERROR_TYPES =
     [INITIALIZATION_FAILED, AUDIO_CONNECTION_FAILED, PROCESSING_ERROR,
      BROWSER_UNSUPPORTED, CONTEXT_ERROR, UNKNOWN_ERROR]"

subsection \<open>getRecoveryStrategy\<close>

record fallback_config =
  fb_fftSize :: nat
  fb_historySize :: nat

record recovery_strategy =
  delay :: nat
  maxRetries :: nat
  fallbackConfig :: "fallback_config option"
  description :: string

text \<open>
  The object literal \<^verbatim>\<open>strategies\<close>, in the order it is written. Its keys are the six tags.
\<close>

definition strategies :: "(string \<times> recovery_strategy) list" where
  "strategies =
     [(INITIALIZATION_FAILED,
        \<lparr>delay = 2000, maxRetries = 3,
         fallbackConfig = Some \<lparr>fb_fftSize = 512, fb_historySize = 4\<rparr>,
         description = ''Retry with reduced settings''\<rparr>),
      (AUDIO_CONNECTION_FAILED,
        \<lparr>delay = 1000, maxRetries = 2, fallbackConfig = None,
         description = ''Retry audio connection''\<rparr>),
      (PROCESSING_ERROR,
        \<lparr>delay = 500, maxRetries = 1, fallbackConfig = None,
         description = ''Skip current frame and continue''\<rparr>),
      (CONTEXT_ERROR,
        \<lparr>delay = 5000, maxRetries = 2,
         fallbackConfig = Some \<lparr>fb_fftSize = 256, fb_historySize = 2\<rparr>,
         description = ''Reinitialize with minimal settings''\<rparr>),
      (BROWSER_UNSUPPORTED,
        \<lparr>delay = 0, maxRetries = 0, fallbackConfig = None,
         description = ''Use fallback animation permanently''\<rparr>),
      (UNKNOWN_ERROR,
        \<lparr>delay = 3000, maxRetries = 1,
         fallbackConfig = Some \<lparr>fb_fftSize = 512, fb_historySize = 4\<rparr>,
         description = ''Generic recovery attempt''\<rparr>)]"

text \<open>
  \<^verbatim>\<open>return strategies[errorType] || strategies[UNKNOWN_ERROR]\<close>: every entry is an object,
  hence truthy, so the right operand is taken exactly when the key is absent. (Property
  names that a JavaScript object inherits, such as \<^verbatim>\<open>toString\<close>, are not error tags and are
  not modelled.) The default is looked up in the table as in the source, so the result is
  an option; it is never \<open>None\<close>, the default key being in the table.
\<close>

definition getRecoveryStrategy :: "string \<Rightarrow> recovery_strategy option" where
  "getRecoveryStrategy errorType =
     (case map_of strategies errorType of
        Some s \<Rightarrow> Some s
      | None \<Rightarrow> map_of strategies UNKNOWN_ERROR)"

subsection \<open>categorizeError\<close>

text \<open>
  An Error-like value has a \<^verbatim>\<open>message\<close> and a \<^verbatim>\<open>name\<close>, each a string or absent
  (undefined or null); the argument itself may be absent. \<^verbatim>\<open>x?.toLowerCase() || ''\<close> is the
  lower-cased string, or the empty string when the property is absent.
\<close>

record js_error =
  message :: "string option"
  name :: "string option"

definition categorizeError :: "js_error option \<Rightarrow> string" where
  "categorizeError error =
     (case error of
        None \<Rightarrow> UNKNOWN_ERROR
      | Some e \<Rightarrow>
          (let msg = (case message e of None \<Rightarrow> [] | Some m \<Rightarrow> toLowerCase m);
               nm = (case name e of None \<Rightarrow> [] | Some n \<Rightarrow> toLowerCase n)
           in if str_includes nm ''invalidstate'' \<or> str_includes msg ''context''
                then CONTEXT_ERROR
              else if str_includes msg ''audio'' \<or> str_includes msg ''connect''
                then AUDIO_CONNECTION_FAILED
              else if str_includes msg ''process'' \<or> str_includes msg ''analyze''
                then PROCESSING_ERROR
              else if str_includes msg ''not supported'' \<or> str_includes msg ''unavailable''
                then BROWSER_UNSUPPORTED
              else if str_includes msg ''init'' \<or> str_includes msg ''constructor''
                then INITIALIZATION_FAILED
              else UNKNOWN_ERROR))"

subsection \<open>generateFallbackLipsync\<close>

record audio_element =
  paused :: bool
  ended :: bool
  currentTime :: jsnum
  duration :: jsnum

fun Math_sin :: "jsnum \<Rightarrow> jsnum" where
  "Math_sin (Num x) = Num (sin x)"
| "Math_sin x = NaN"

text \<open>
  The result object is the list of its entries. An absent \<open>intensity\<close> argument takes the
  default 0.5. No statement of the \<^verbatim>\<open>try\<close> block can throw on such an audio element, so the
  \<^verbatim>\<open>catch\<close> branch is never taken.
\<close>

definition generateFallbackLipsync ::
  "audio_element option \<Rightarrow> jsnum option \<Rightarrow> (string \<times> jsnum) list" where
  "generateFallbackLipsync audio intensityArg =
     (let intensity = (case intensityArg of None \<Rightarrow> Num 0.5 | Some i \<Rightarrow> i)
      in case audio of
           None \<Rightarrow> []
         | Some a \<Rightarrow>
             if paused a \<or> ended a then []
             else if falsy (duration a) \<or> js_ge (currentTime a) (duration a) then []
             else
               (let timeBasedIntensity =
                      js_add (js_mul (Math_sin (js_mul (currentTime a) (Num 8))) intensity) intensity;
                    clampedIntensity = Math_max (Num 0) (Math_min timeBasedIntensity (Num 1))
                in [(''viseme_AA'', js_mul clampedIntensity (Num 0.7)),
                    (''viseme_E'', js_mul clampedIntensity (Num 0.3)),
                    (''viseme_I'', js_mul clampedIntensity (Num 0.2)),
                    (''viseme_O'', js_mul clampedIntensity (Num 0.4))]))"

subsection \<open>detectBrowserSupport\<close>

text \<open>
  The environment the probe reads. \<open>window = None\<close>: the global \<^verbatim>\<open>window\<close> is not defined
  (reading it throws). An audio-context constructor is present or absent (falsy); when
  present, constructing it, \<^verbatim>\<open>createAnalyser\<close> or \<^verbatim>\<open>close\<close> may throw.
  \<open>userAgent = None\<close>: \<^verbatim>\<open>navigator.userAgent.toLowerCase()\<close> throws (no navigator, or no
  string there).
\<close>

record audio_context_ctor =
  constructor_throws :: bool
  createAnalyser_throws :: bool
  close_throws :: bool

record window_env =
  AudioContext :: "audio_context_ctor option"
  webkitAudioContext :: "audio_context_ctor option"
  MediaStream :: bool














subsection \<open>LipsyncPerformanceMonitor\<close>

text \<open>
  The object \<^verbatim>\<open>this.metrics\<close>. Clock readings (\<^verbatim>\<open>performance.now()\<close>, \<^verbatim>\<open>Date.now()\<close>) are
  arguments of the operations that take them. The console warning of \<^verbatim>\<open>endTiming\<close> changes
  no state and is left out.
\<close>

record last_error =
  le_message :: "string option"
  le_timestamp :: jsnum
  le_type :: string

record metrics =
  processingTime :: "jsnum list"
  errorCount :: nat
  successCount :: nat
  lastError :: "last_error option"

definition newMonitor :: metrics where
  "newMonitor = \<lparr>processingTime = [], errorCount = 0, successCount = 0, lastError = None\<rparr>"

definition startTiming :: "jsnum \<Rightarrow> jsnum" where
  "startTiming now = now"

text \<open>\<^verbatim>\<open>push\<close> appends at the end; \<^verbatim>\<open>shift\<close> removes the first element.\<close>

definition endTiming :: "jsnum \<Rightarrow> jsnum \<Rightarrow> metrics \<Rightarrow> metrics" where
  "endTiming now startTime m =
     (let duration = js_sub now startTime;
          pushed = processingTime m @ [duration]
      in m\<lparr>processingTime := (if length pushed > 100 then tl pushed else pushed)\<rparr>)"

definition recordSuccess :: "metrics \<Rightarrow> metrics" where
  "recordSuccess m = m\<lparr>successCount := successCount m + 1\<rparr>"

definition recordError :: "jsnum \<Rightarrow> js_error \<Rightarrow> metrics \<Rightarrow> metrics" where
  "recordError now error m =
     m\<lparr>errorCount := errorCount m + 1,
       lastError := Some \<lparr>le_message = message error, le_timestamp = now,
                          le_type = categorizeError (Some error)\<rparr>\<rparr>"

text \<open>
  \<^verbatim>\<open>getStats\<close>. The source formats the average with \<^verbatim>\<open>toFixed(2)\<close>; the model keeps the number.
  \<^verbatim>\<open>errorCount / (errorCount + successCount) || 0\<close>: a falsy quotient (zero, or \<^verbatim>\<open>NaN\<close> from
  0 / 0) is replaced by 0.
\<close>

record monitor_stats =
  mon_averageProcessingTime :: jsnum
  mon_errorRate :: jsnum
  mon_totalErrors :: nat
  mon_totalSuccesses :: nat
  mon_lastError :: "last_error option"

definition getStats :: "metrics \<Rightarrow> monitor_stats" where
  "getStats m =
     (let processingTimes = processingTime m;
          avgProcessingTime =
            (if length processingTimes > 0
             then js_div (fold (\<lambda>b a. js_add a b) processingTimes (Num 0))
                         (Num (real (length processingTimes)))
             else Num 0);
          rate = js_div (Num (real (errorCount m)))
                        (Num (real (errorCount m + successCount m)))
      in \<lparr>mon_averageProcessingTime = avgProcessingTime,
          mon_errorRate = (if falsy rate then Num 0 else rate),
          mon_totalErrors = errorCount m,
          mon_totalSuccesses = successCount m,
          mon_lastError = lastError m\<rparr>)"

text \<open>A call of the monitor, and a run of calls from a fresh monitor.\<close>

datatype monitor_call =
    StartTiming jsnum
  | EndTiming jsnum jsnum
  | RecordSuccess
  | RecordError jsnum js_error
  | GetStats

fun monitorCall :: "monitor_call \<Rightarrow> metrics \<Rightarrow> metrics" where
  "monitorCall (StartTiming now) m = m"
| "monitorCall (EndTiming now startTime) m = endTiming now startTime m"
| "monitorCall RecordSuccess m = recordSuccess m"
| "monitorCall (RecordError now error) m = recordError now error m"
| "monitorCall GetStats m = m"

definition runMonitor :: "monitor_call list \<Rightarrow> metrics" where
  "runMonitor calls = fold monitorCall calls newMonitor"

text \<open>The durations that the \<^verbatim>\<open>endTiming\<close> calls of a run measure, in the order of the calls.\<close>

fun durationsOf :: "monitor_call list \<Rightarrow> jsnum list" where
  "durationsOf [] = []"
| "durationsOf (EndTiming now startTime # calls) = js_sub now startTime # durationsOf calls"
| "durationsOf (c # calls) = durationsOf calls"

section \<open>Performance optimizer (src/utils/lipsyncOptimization.js)\<close>

subsection \<open>LipsyncPerformanceOptimizer\<close>

text \<open>
  The second monitor class. Its fields \<^verbatim>\<open>errorCount\<close> and \<^verbatim>\<open>successCount\<close> carry the prefix
  \<open>opt_\<close> here, the names being taken by the record above. The heap size that
  \<^verbatim>\<open>performance.memory\<close> reports, where the browser has it, is an argument.
\<close>

record measurement =
  operation :: string
  m_duration :: jsnum
  m_timestamp :: jsnum
  m_frameCount :: nat

record optimizer =
  measurements :: "measurement list"
  opt_errorCount :: nat
  opt_successCount :: nat
  startTime :: jsnum
  frameCount :: nat
  memoryBaseline :: "jsnum option"

definition newOptimizer :: "jsnum \<Rightarrow> jsnum option \<Rightarrow> optimizer" where
  "newOptimizer now memory =
     \<lparr>measurements = [], opt_errorCount = 0, opt_successCount = 0, startTime = now,
      frameCount = 0, memoryBaseline = memory\<rparr>"

text \<open>\<^verbatim>\<open>endTiming\<close> of the optimizer returns the duration and appends a measurement.\<close>

definition opt_endTiming :: "jsnum \<Rightarrow> jsnum \<Rightarrow> string \<Rightarrow> optimizer \<Rightarrow> jsnum \<times> optimizer" where
  "opt_endTiming endTime start op s =
     (let duration = js_sub endTime start
      in (duration,
          s\<lparr>measurements := measurements s @
                [\<lparr>operation = op, m_duration = duration, m_timestamp = endTime,
                  m_frameCount = frameCount s\<rparr>],
            frameCount := frameCount s + 1\<rparr>))"

definition opt_recordSuccess :: "optimizer \<Rightarrow> optimizer" where
  "opt_recordSuccess s = s\<lparr>opt_successCount := opt_successCount s + 1\<rparr>"

definition opt_recordError :: "optimizer \<Rightarrow> optimizer" where
  "opt_recordError s = s\<lparr>opt_errorCount := opt_errorCount s + 1\<rparr>"

record optimizer_stats =
  totalRuntime :: jsnum
  st_frameCount :: nat
  averageFPS :: jsnum
  averageProcessingTime :: jsnum
  maxProcessingTime :: jsnum
  minProcessingTime :: jsnum
  errorRate :: jsnum
  totalErrors :: nat
  totalSuccesses :: nat
  memoryIncrease :: jsnum

text \<open>\<^verbatim>\<open>Math.max(...xs)\<close> and \<^verbatim>\<open>Math.min(...xs)\<close> of a list.\<close>

definition Math_max_list :: "jsnum list \<Rightarrow> jsnum" where
  "Math_max_list xs = fold (\<lambda>x acc. Math_max acc x) xs NInf"

definition Math_min_list :: "jsnum list \<Rightarrow> jsnum" where
  "Math_min_list xs = fold (\<lambda>x acc. Math_min acc x) xs PInf"

definition opt_getStats :: "jsnum \<Rightarrow> jsnum option \<Rightarrow> optimizer \<Rightarrow> optimizer_stats" where
  "opt_getStats now currentMemory s =
     (let totalTime = js_sub now (startTime s);
          processingTimes =
            map m_duration
              (filter (\<lambda>m. str_includes (operation m) ''processing'') (measurements s))
      in \<lparr>totalRuntime = totalTime,
          st_frameCount = frameCount s,
          averageFPS = js_div (Num (real (frameCount s))) (js_div totalTime (Num 1000)),
          averageProcessingTime =
            (if length processingTimes > 0
             then js_div (fold (\<lambda>t sum. js_add sum t) processingTimes (Num 0))
                         (Num (real (length processingTimes)))
             else Num 0),
          maxProcessingTime =
            (if length processingTimes > 0 then Math_max_list processingTimes else Num 0),
          minProcessingTime =
            (if length processingTimes > 0 then Math_min_list processingTimes else Num 0),
          errorRate = js_div (Num (real (opt_errorCount s)))
                             (Num (real (opt_errorCount s + opt_successCount s))),
          totalErrors = opt_errorCount s,
          totalSuccesses = opt_successCount s,
          memoryIncrease =
            (case (currentMemory, memoryBaseline s) of
               (Some used, Some base) \<Rightarrow>
                 js_div (js_div (js_sub used base) (Num 1024)) (Num 1024)
             | _ \<Rightarrow> Num 0)\<rparr>)"

datatype optimizer_call =
    OptStartTiming jsnum
  | OptEndTiming jsnum jsnum string
  | OptRecordSuccess
  | OptRecordError
  | OptGetStats jsnum "jsnum option"

fun optimizerCall :: "optimizer_call \<Rightarrow> optimizer \<Rightarrow> optimizer" where
  "optimizerCall (OptStartTiming now) s = s"
| "optimizerCall (OptEndTiming endTime start op) s = snd (opt_endTiming endTime start op s)"
| "optimizerCall OptRecordSuccess s = opt_recordSuccess s"
| "optimizerCall OptRecordError s = opt_recordError s"
| "optimizerCall (OptGetStats now memory) s = s"

subsection \<open>AdaptivePerformanceOptimizer\<close>

text \<open>
  The configuration object. The minimal configuration of the last adaptation step has no
  \<^verbatim>\<open>performance\<close> part and no browser flags, hence the options. The fields of
  \<^verbatim>\<open>smoothing\<close> carry the prefix \<open>sm_\<close>.
\<close>

record smoothing_config =
  sm_ACTIVE_LERP_SPEED :: jsnum
  sm_NEUTRAL_LERP_SPEED :: jsnum
  sm_MIN_THRESHOLD :: jsnum
  sm_MAX_BLEND_VISEMES :: jsnum
  sm_EXPRESSION_BLEND_FACTOR :: jsnum

record performance_config =
  MAX_PROCESSING_TIME :: jsnum
  MAX_MEMORY_INCREASE :: jsnum
  TARGET_FPS :: jsnum
  ERROR_THRESHOLD :: jsnum

record lipsync_config =
  fftSize :: jsnum
  historySize :: jsnum
  smoothing :: smoothing_config
  performance :: "performance_config option"
  useWebGL :: "bool option"
  enableHardwareAcceleration :: "bool option"

definition OPTIMAL_performance :: performance_config where
  "OPTIMAL_performance =
     \<lparr>MAX_PROCESSING_TIME = Num 1.0, MAX_MEMORY_INCREASE = Num 10,
      TARGET_FPS = Num 60, ERROR_THRESHOLD = Num 0.05\<rparr>"

definition OPTIMAL_LIPSYNC_CONFIG :: lipsync_config where
  "OPTIMAL_LIPSYNC_CONFIG =
     \<lparr>fftSize = Num 1024, historySize = Num 8,
      smoothing = \<lparr>sm_ACTIVE_LERP_SPEED = Num 0.3, sm_NEUTRAL_LERP_SPEED = Num 0.2,
                   sm_MIN_THRESHOLD = Num 0.02, sm_MAX_BLEND_VISEMES = Num 3,
                   sm_EXPRESSION_BLEND_FACTOR = Num 0.3\<rparr>,
      performance = Some OPTIMAL_performance,
      useWebGL = None, enableHardwareAcceleration = None\<rparr>"

text \<open>\<^verbatim>\<open>{ ...browserConfig, ...BROWSER_OPTIMIZATIONS.x }\<close> overwrites the four browser fields.\<close>

definition withBrowser :: "jsnum \<Rightarrow> jsnum \<Rightarrow> bool \<Rightarrow> bool \<Rightarrow> lipsync_config \<Rightarrow> lipsync_config" where
  "withBrowser fft hist webgl hw c =
     c\<lparr>fftSize := fft, historySize := hist, useWebGL := Some webgl,
       enableHardwareAcceleration := Some hw\<rparr>"

definition detectBrowserAndOptimize :: "string \<Rightarrow> lipsync_config" where
  "detectBrowserAndOptimize navigatorUserAgent =
     (let ua = toLowerCase navigatorUserAgent
      in if str_includes ua ''chrome'' \<and> \<not> str_includes ua ''edge''
           then withBrowser (Num 1024) (Num 8) True True OPTIMAL_LIPSYNC_CONFIG
         else if str_includes ua ''firefox''
           then withBrowser (Num 1024) (Num 6) True False OPTIMAL_LIPSYNC_CONFIG
         else if str_includes ua ''safari'' \<and> \<not> str_includes ua ''chrome''
           then withBrowser (Num 512) (Num 4) False False OPTIMAL_LIPSYNC_CONFIG
         else if str_includes ua ''edge''
           then withBrowser (Num 1024) (Num 8) True True OPTIMAL_LIPSYNC_CONFIG
         else OPTIMAL_LIPSYNC_CONFIG)"

record history_entry =
  timestamp :: jsnum
  stats :: optimizer_stats
  config :: lipsync_config

record adaptive_optimizer =
  performanceHistory :: "history_entry list"
  currentConfig :: lipsync_config
  adaptationCount :: nat
  maxAdaptations :: nat

definition newAdaptiveOptimizer :: "string \<Rightarrow> adaptive_optimizer" where
  "newAdaptiveOptimizer navigatorUserAgent =
     \<lparr>performanceHistory = [], currentConfig = detectBrowserAndOptimize navigatorUserAgent,
      adaptationCount = 0, maxAdaptations = 5\<rparr>"

definition analyzePerformance :: "jsnum \<Rightarrow> optimizer_stats \<Rightarrow> adaptive_optimizer \<Rightarrow> adaptive_optimizer" where
  "analyzePerformance now st s =
     (let pushed = performanceHistory s @
                     [\<lparr>timestamp = now, stats = st, config = currentConfig s\<rparr>]
      in s\<lparr>performanceHistory := (if length pushed > 10 then tl pushed else pushed)\<rparr>)"

text \<open>\<^verbatim>\<open>xs.slice(-3)\<close>: the last three elements, or all of them when there are fewer.\<close>

definition slice_last3 :: "'a list \<Rightarrow> 'a list" where
  "slice_last3 xs = drop (length xs - 3) xs"

text \<open>
  \<^verbatim>\<open>shouldAdapt\<close> reads its two thresholds from \<^verbatim>\<open>OPTIMAL_LIPSYNC_CONFIG.performance\<close>, a part
  of the module constant that no adaptation step writes.
\<close>

definition shouldAdapt :: "adaptive_optimizer \<Rightarrow> bool" where
  "shouldAdapt s =
     (if adaptationCount s \<ge> maxAdaptations s then False
      else if length (performanceHistory s) < 3 then False
      else
        (let recentStats = slice_last3 (performanceHistory s);
             avgProcessingTime =
               js_div (fold (\<lambda>entry sum. js_add sum (averageProcessingTime (stats entry)))
                         recentStats (Num 0))
                      (Num (real (length recentStats)));
             avgFPS =
               js_div (fold (\<lambda>entry sum. js_add sum (averageFPS (stats entry)))
                         recentStats (Num 0))
                      (Num (real (length recentStats)))
         in js_gt avgProcessingTime (MAX_PROCESSING_TIME OPTIMAL_performance)
            \<or> js_lt avgFPS (js_mul (TARGET_FPS OPTIMAL_performance) (Num 0.8))))"

definition minimalConfig :: lipsync_config where
  "minimalConfig =
     \<lparr>fftSize = Num 256, historySize = Num 2,
      smoothing = \<lparr>sm_ACTIVE_LERP_SPEED = Num 0.1, sm_NEUTRAL_LERP_SPEED = Num 0.1,
                   sm_MIN_THRESHOLD = Num 0.1, sm_MAX_BLEND_VISEMES = Num 1,
                   sm_EXPRESSION_BLEND_FACTOR = Num 0.1\<rparr>,
      performance = None, useWebGL = None, enableHardwareAcceleration = None\<rparr>"

text \<open>The configuration after the step numbered \<open>n\<close> of the degradation ladder.\<close>

definition degrade :: "nat \<Rightarrow> lipsync_config \<Rightarrow> lipsync_config" where
  "degrade n c =
     (if n = 1 then c\<lparr>historySize := Math_max (Num 4) (js_sub (historySize c) (Num 2))\<rparr>
      else if n = 2 then c\<lparr>fftSize := Math_max (Num 512) (js_div (fftSize c) (Num 2))\<rparr>
      else if n = 3 then
        c\<lparr>smoothing := (smoothing c)
            \<lparr>sm_MIN_THRESHOLD := js_mul (sm_MIN_THRESHOLD (smoothing c)) (Num 1.5),
             sm_MAX_BLEND_VISEMES :=
               Math_max (Num 1) (js_sub (sm_MAX_BLEND_VISEMES (smoothing c)) (Num 1))\<rparr>\<rparr>
      else if n = 4 then
        c\<lparr>smoothing := (smoothing c)
            \<lparr>sm_ACTIVE_LERP_SPEED := js_mul (sm_ACTIVE_LERP_SPEED (smoothing c)) (Num 0.8),
             sm_NEUTRAL_LERP_SPEED := js_mul (sm_NEUTRAL_LERP_SPEED (smoothing c)) (Num 0.8)\<rparr>\<rparr>
      else minimalConfig)"

text \<open>\<^verbatim>\<open>adaptConfiguration\<close> returns the configuration and leaves the optimizer changed or not.\<close>

definition adaptConfiguration :: "adaptive_optimizer \<Rightarrow> lipsync_config \<times> adaptive_optimizer" where
  "adaptConfiguration s =
     (if \<not> shouldAdapt s then (currentConfig s, s)
      else
        (let n = adaptationCount s + 1;
             c = degrade n (currentConfig s)
         in (c, s\<lparr>adaptationCount := n, currentConfig := c\<rparr>)))"

datatype adaptive_call = AnalyzePerformance jsnum optimizer_stats | AdaptConfiguration

fun adaptiveCall :: "adaptive_call \<Rightarrow> adaptive_optimizer \<Rightarrow> adaptive_optimizer" where
  "adaptiveCall (AnalyzePerformance now st) s = analyzePerformance now st s"
| "adaptiveCall AdaptConfiguration s = snd (adaptConfiguration s)"

fun isAnalyze :: "adaptive_call \<Rightarrow> bool" where
  "isAnalyze (AnalyzePerformance now st) = True"
| "isAnalyze AdaptConfiguration = False"

text \<open>
  The statistics that the performance tests feed to the optimizer
  (\<^verbatim>\<open>{ averageProcessingTime: 2.0, averageFPS: 30, errorRate: 0.01 }\<close>); the fields the test
  object does not have are zero here.
\<close>

definition poorStats :: optimizer_stats where
  "poorStats =
     \<lparr>totalRuntime = Num 0, st_frameCount = 0, averageFPS = Num 30,
      averageProcessingTime = Num 2.0, maxProcessingTime = Num 0, minProcessingTime = Num 0,
      errorRate = Num 0.01, totalErrors = 0, totalSuccesses = 0, memoryIncrease = Num 0\<rparr>"

section \<open>Morph-target blending (the blending test suites)\<close>

text \<open>
  The Avatar component is not part of the sources; its blending logic is present as the
  simulation the test suites run (\<^verbatim>\<open>createMockMorphTargetSystem\<close>, \<^verbatim>\<open>simulateFrameUpdate\<close>) and
  as the inline selection and clamping snippets of the integration test.
\<close>

definition ACTIVE_LERP_SPEED :: jsnum where
  "ACTIVE_LERP_SPEED = Num 0.3"

definition NEUTRAL_LERP_SPEED :: jsnum where
  "NEUTRAL_LERP_SPEED = Num 0.2"

definition MIN_THRESHOLD :: jsnum where
  "MIN_THRESHOLD = Num 0.02"

definition MAX_BLEND_VISEMES :: int where
  "MAX_BLEND_VISEMES = 3"

text \<open>Object literals are association lists in the order of their keys.\<close>

definition facialExpressions :: "(string \<times> (string \<times> jsnum) list) list" where
  "facialExpressions =
     [(''default'', []),
      (''smile'',
         [(''browInnerUp'', Num 0.17), (''eyeSquintLeft'', Num 0.4),
          (''eyeSquintRight'', Num 0.44), (''mouthSmileLeft'', Num 0.61),
          (''mouthSmileRight'', Num 0.41)]),
      (''sad'',
         [(''mouthFrownLeft'', Num 1), (''mouthFrownRight'', Num 1),
          (''browInnerUp'', Num 0.452), (''eyeSquintLeft'', Num 0.72),
          (''eyeSquintRight'', Num 0.75)]),
      (''surprised'',
         [(''eyeWideLeft'', Num 0.5), (''eyeWideRight'', Num 0.5),
          (''jawOpen'', Num 0.351), (''mouthFunnel'', Num 1),
          (''browInnerUp'', Num 1)])]"

definition visemeMapping :: "(string \<times> string) list" where
  "visemeMapping =
     [(''viseme_sil'', ''viseme_sil''), (''viseme_PP'', ''viseme_PP''),
      (''viseme_FF'', ''viseme_FF''), (''viseme_AA'', ''viseme_AA''),
      (''viseme_E'', ''viseme_E''), (''viseme_I'', ''viseme_I''),
      (''viseme_O'', ''viseme_O''), (''viseme_U'', ''viseme_U''),
      (''A'', ''viseme_AA''), (''E'', ''viseme_E''), (''I'', ''viseme_I''),
      (''O'', ''viseme_O''), (''U'', ''viseme_U'')]"

type_synonym morph_targets = "string \<rightharpoonup> jsnum"

text \<open>The store \<^verbatim>\<open>morphTargets\<close> that \<^verbatim>\<open>createMockMorphTargetSystem\<close> starts from.\<close>

definition morphTargetNames :: "string list" where
  "morphTargetNames =
     [''viseme_sil'', ''viseme_PP'', ''viseme_FF'', ''viseme_AA'', ''viseme_E'',
      ''viseme_I'', ''viseme_O'', ''viseme_U'',
      ''browInnerUp'', ''eyeSquintLeft'', ''eyeSquintRight'', ''mouthSmileLeft'',
      ''mouthSmileRight'', ''mouthFrownLeft'', ''mouthFrownRight'', ''eyeWideLeft'',
      ''eyeWideRight'', ''jawOpen'', ''mouthFunnel'',
      ''eyeBlinkLeft'', ''eyeBlinkRight'']"

definition createMockMorphTargetSystem :: morph_targets where
  "createMockMorphTargetSystem = map_of (map (\<lambda>k. (k, Num 0)) morphTargetNames)"

text \<open>
  \<^verbatim>\<open>applyMorphTarget(target, value, lerpSpeed)\<close>: a target the store does not know is left
  alone; otherwise the value is clamped by \<^verbatim>\<open>Math.max(0, Math.min(value, 1))\<close> and the stored
  intensity moves from its current value towards the clamped one.
\<close>

definition applyMorphTarget ::
  "string \<Rightarrow> jsnum \<Rightarrow> jsnum \<Rightarrow> morph_targets \<Rightarrow> morph_targets" where
  "applyMorphTarget target val lerpSpeed morphTargets =
     (case morphTargets target of
        None \<Rightarrow> morphTargets
      | Some currentValue \<Rightarrow>
          let clampedValue = Math_max (Num 0) (Math_min val (Num 1))
          in morphTargets(target \<mapsto>
               js_add currentValue (js_mul (js_sub clampedValue currentValue) lerpSpeed)))"

definition isVisemeTarget :: "string \<Rightarrow> bool" where
  "isVisemeTarget target = (target \<in> set (map snd visemeMapping))"

text \<open>
  \<^verbatim>\<open>simulateFrameUpdate(mockSystem, facialExpression, lipsyncVisemes, hasActiveLipsync)\<close>.
  The three \<^verbatim>\<open>forEach\<close> loops are folds over the entries in their order. An absent
  (null) \<^verbatim>\<open>lipsyncVisemes\<close> is \<open>None\<close>; an empty expression name is falsy.
\<close>

definition applyFacialExpression :: "bool \<Rightarrow> string \<times> jsnum \<Rightarrow> morph_targets \<Rightarrow> morph_targets" where
  "applyFacialExpression hasActiveLipsync entry m =
     (case entry of (key, val) \<Rightarrow>
        if key = ''eyeBlinkLeft'' \<or> key = ''eyeBlinkRight'' then m
        else if isVisemeTarget key then
          (let blendFactor = (if hasActiveLipsync then Num 0.3 else Num 1.0)
           in applyMorphTarget key (js_mul val blendFactor) (Num 0.1) m)
        else applyMorphTarget key val (Num 0.1) m)"

definition applyLipsyncViseme :: "string \<times> jsnum \<Rightarrow> morph_targets \<Rightarrow> morph_targets" where
  "applyLipsyncViseme entry m =
     (case entry of (viseme, val) \<Rightarrow>
        (case map_of visemeMapping viseme of
           None \<Rightarrow> m
         | Some morphTarget \<Rightarrow>
             if morphTarget \<noteq> [] \<and> js_gt val MIN_THRESHOLD
             then applyMorphTarget morphTarget val ACTIVE_LERP_SPEED m
             else m))"

definition allVisemeTargets :: "string list" where
  "allVisemeTargets = filter (\<lambda>target. target \<noteq> []) (map snd visemeMapping)"

definition returnToNeutral :: "string list \<Rightarrow> string \<Rightarrow> morph_targets \<Rightarrow> morph_targets" where
  "returnToNeutral activeTargets target m =
     (if target \<notin> set activeTargets
      then applyMorphTarget target (Num 0) NEUTRAL_LERP_SPEED m
      else m)"

definition simulateFrameUpdate ::
  "morph_targets \<Rightarrow> string \<Rightarrow> (string \<times> jsnum) list option \<Rightarrow> bool \<Rightarrow> morph_targets" where
  "simulateFrameUpdate m0 facialExpression lipsyncVisemes hasActiveLipsync =
     (let m1 = (if facialExpression \<noteq> [] then
                  (case map_of facialExpressions facialExpression of
                     None \<Rightarrow> m0
                   | Some mapping \<Rightarrow> fold (applyFacialExpression hasActiveLipsync) mapping m0)
                else m0);
          m2 = (case lipsyncVisemes of
                  None \<Rightarrow> m1
                | Some entries \<Rightarrow>
                    if hasActiveLipsync then fold applyLipsyncViseme entries m1 else m1);
          activeTargets = (case lipsyncVisemes of
                  None \<Rightarrow> []
                | Some entries \<Rightarrow>
                    filter (\<lambda>t. t \<noteq> [])
                      (List.map_filter (\<lambda>v. map_of visemeMapping v) (map fst entries)))
      in fold (returnToNeutral activeTargets) allVisemeTargets m2)"

text \<open>The frames of a run, one after the other, each with its own arguments.\<close>

fun simulateFrames ::
  "morph_targets \<Rightarrow> (string \<times> (string \<times> jsnum) list option \<times> bool) list \<Rightarrow> morph_targets" where
  "simulateFrames m [] = m"
| "simulateFrames m ((fe, lv, act) # frames) =
     simulateFrames (simulateFrameUpdate m fe lv act) frames"

subsection \<open>Viseme selection and value clamping (integration test)\<close>

text \<open>
  \<^verbatim>\<open>Object.entries(visemeScores).filter(([_, value]) => value > MIN_THRESHOLD)
     .sort(([_, a], [__, b]) => b - a).slice(0, MAX_BLEND_VISEMES)\<close>,
  with the scores, the threshold and the count as parameters. \<^verbatim>\<open>Array.prototype.sort\<close> is
  stable and puts \<open>x\<close> after \<open>y\<close> only when the comparator is positive on \<open>(x, y)\<close>;
  a comparator value of \<^verbatim>\<open>NaN\<close> counts as zero. It is modelled as a stable insertion sort.
  \<^verbatim>\<open>slice(0, end)\<close> counts a negative \<open>end\<close> from the end of the array.
\<close>

definition compareScores :: "string \<times> jsnum \<Rightarrow> string \<times> jsnum \<Rightarrow> jsnum" where
  "compareScores x y = js_sub (snd y) (snd x)"

fun sort_insert :: "('a \<Rightarrow> 'a \<Rightarrow> jsnum) \<Rightarrow> 'a \<Rightarrow> 'a list \<Rightarrow> 'a list" where
  "sort_insert cmp x [] = [x]"
| "sort_insert cmp x (y # ys) =
     (if js_gt (cmp x y) (Num 0) then y # sort_insert cmp x ys else x # y # ys)"

definition js_sort :: "('a \<Rightarrow> 'a \<Rightarrow> jsnum) \<Rightarrow> 'a list \<Rightarrow> 'a list" where
  "js_sort cmp xs = foldr (sort_insert cmp) xs []"

definition slice0 :: "int \<Rightarrow> 'a list \<Rightarrow> 'a list" where
  "slice0 end xs =
     (let len = int (length xs);
          final = (if end < 0 then max (len + end) 0 else min end len)
      in take (nat final) xs)"

definition activeVisemes ::
  "(string \<times> jsnum) list \<Rightarrow> jsnum \<Rightarrow> int \<Rightarrow> (string \<times> jsnum) list" where
  "activeVisemes visemeScores minThreshold maxBlendCount =
     slice0 maxBlendCount
       (js_sort compareScores
          (filter (\<lambda>(_, val). js_gt val minThreshold) visemeScores))"

definition clampValue :: "jsnum \<Rightarrow> jsnum" where
  "clampValue val =
     (if val = NaN then Num 0 else Math_max (Num 0) (Math_min val (Num 1)))"

text \<open>Every intensity of the store is a number of the interval from 0 to 1.\<close>

definition intensities_valid :: "morph_targets \<Rightarrow> bool" where
  "intensities_valid m = (\<forall>v\<in>ran m. unit_interval v)"

section \<open>Properties\<close>

subsection \<open>Recovery table\<close>

lemmas error_type_defs =
  INITIALIZATION_FAILED_def AUDIO_CONNECTION_FAILED_def PROCESSING_ERROR_def
  BROWSER_UNSUPPORTED_def CONTEXT_ERROR_def UNKNOWN_ERROR_def

lemma strategies_keys: "map fst strategies =
    [INITIALIZATION_FAILED, AUDIO_CONNECTION_FAILED, PROCESSING_ERROR,
     CONTEXT_ERROR, BROWSER_UNSUPPORTED, UNKNOWN_ERROR]"
  by (simp add: strategies_def)

lemma getRecoveryStrategy_total: "\<exists>s. getRecoveryStrategy t = Some s"
  by (simp add: getRecoveryStrategy_def strategies_def error_type_defs split: option.split)

text \<open>
  Claim C5. getRecoveryStrategy is a lookup in a fixed table: the six error kinds get the
  pairs (delay, maxRetries) = (2000, 3), (1000, 2), (500, 1), (5000, 2), (0, 0) and
  (3000, 1) for initialization, audio connection, processing, context, unsupported browser
  and unknown errors. Among the six kinds, maxRetries is 0 exactly for the unsupported
  browser; every other kind has at least one retry and a positive delay.
\<close>

theorem getRecoveryStrategy_table:
  "map (\<lambda>t. map_option (\<lambda>s. (delay s, maxRetries s)) (getRecoveryStrategy t))
       [INITIALIZATION_FAILED, AUDIO_CONNECTION_FAILED, PROCESSING_ERROR,
        CONTEXT_ERROR, BROWSER_UNSUPPORTED, UNKNOWN_ERROR]
     = [Some (2000, 3), Some (1000, 2), Some (500, 1), Some (5000, 2), Some (0, 0), Some (3000, 1)]
   \<and> (\<forall>t\<in>set LIPSYNC_ERROR_TYPES. \<exists>s. getRecoveryStrategy t = Some s
         \<and> (maxRetries s = 0 \<longleftrightarrow> t = BROWSER_UNSUPPORTED)
         \<and> (t \<noteq> BROWSER_UNSUPPORTED \<longrightarrow> 1 \<le> maxRetries s \<and> 0 < delay s))"
  by (simp add: getRecoveryStrategy_def strategies_def LIPSYNC_ERROR_TYPES_def error_type_defs)

theorem getRecoveryStrategy_table_witness:
  "PROCESSING_ERROR \<in> set LIPSYNC_ERROR_TYPES \<and> PROCESSING_ERROR \<noteq> BROWSER_UNSUPPORTED
   \<and> (\<exists>s. getRecoveryStrategy PROCESSING_ERROR = Some s \<and> 1 \<le> maxRetries s \<and> 0 < delay s)"
proof -
  have mem: "PROCESSING_ERROR \<in> set LIPSYNC_ERROR_TYPES"
    by (simp add: LIPSYNC_ERROR_TYPES_def)
  have ne: "PROCESSING_ERROR \<noteq> BROWSER_UNSUPPORTED"
    by (simp add: error_type_defs)
  from getRecoveryStrategy_table[THEN conjunct2, THEN bspec, OF mem] ne mem
  show ?thesis by blast
qed

subsection \<open>Numbers, sorting and interpolation: auxiliary facts\<close>

lemma js_lt_NaN_right [simp]: "js_lt x NaN = False"
  by (cases x) simp_all

lemma js_gt_not_NaN: "js_gt v T \<Longrightarrow> v \<noteq> NaN"
  by (auto simp: js_gt_def)

lemma compareScores_positive:
  "snd x \<noteq> NaN \<Longrightarrow> snd y \<noteq> NaN \<Longrightarrow>
     js_gt (compareScores x y) (Num 0) = js_lt (snd x) (snd y)"
  by (cases "snd x"; cases "snd y") (auto simp: compareScores_def js_gt_def js_sub_def)

lemma js_ge_total: "a \<noteq> NaN \<Longrightarrow> b \<noteq> NaN \<Longrightarrow> \<not> js_lt a b \<Longrightarrow> js_ge a b"
  by (simp add: js_ge_def)

lemma js_lt_imp_ge: "js_lt a b \<Longrightarrow> js_ge b a"
  by (cases a; cases b) (auto simp: js_ge_def)

lemma js_ge_trans: "js_ge a b \<Longrightarrow> js_ge b c \<Longrightarrow> js_ge a c"
  by (cases a; cases b; cases c) (auto simp: js_ge_def)

lemma mset_sort_insert: "mset (sort_insert cmp x ys) = add_mset x (mset ys)"
  by (induction ys) auto

lemma mset_js_sort: "mset (js_sort cmp xs) = mset xs"
  by (induction xs) (auto simp: js_sort_def mset_sort_insert)

lemma set_sort_insert: "set (sort_insert cmp x ys) = insert x (set ys)"
  by (induction ys) auto

lemma set_js_sort: "set (js_sort cmp xs) = set xs"
  by (induction xs) (auto simp: js_sort_def set_sort_insert)

lemma sorted_sort_insert:
  assumes "sorted_wrt (\<lambda>a b. js_ge (snd a) (snd b)) ys" "snd x \<noteq> NaN" "\<forall>y\<in>set ys. snd y \<noteq> NaN"
  shows "sorted_wrt (\<lambda>a b. js_ge (snd a) (snd b)) (sort_insert compareScores x ys)"
  using assms
proof (induction ys)
  case Nil
  then show ?case by simp
next
  case (Cons y ys)
  show ?case
  proof (cases "js_lt (snd x) (snd y)")
    case True
    then have "js_ge (snd y) (snd x)" by (rule js_lt_imp_ge)
    with Cons True show ?thesis
      by (auto simp: compareScores_positive set_sort_insert)
  next
    case False
    with Cons.prems have xy: "js_ge (snd x) (snd y)" by (simp add: js_ge_def)
    have "\<forall>z\<in>set ys. js_ge (snd x) (snd z)"
      using Cons.prems(1) xy by (auto intro: js_ge_trans)
    with Cons.prems False xy show ?thesis
      by (simp add: compareScores_positive)
  qed
qed

lemma sorted_js_sort:
  "\<forall>y\<in>set xs. snd y \<noteq> NaN \<Longrightarrow>
     sorted_wrt (\<lambda>a b. js_ge (snd a) (snd b)) (js_sort compareScores xs)"
proof (induction xs)
  case Nil
  then show ?case by (simp add: js_sort_def)
next
  case (Cons x xs)
  have "sorted_wrt (\<lambda>a b. js_ge (snd a) (snd b)) (sort_insert compareScores x (js_sort compareScores xs))"
    using Cons by (intro sorted_sort_insert) (auto simp: set_js_sort)
  then show ?case by (simp add: js_sort_def)
qed

lemma slice0_nonneg: "0 \<le> n \<Longrightarrow> slice0 n xs = take (nat n) xs"
  by (auto simp: slice0_def Let_def min_def)

lemma convex_unit:
  fixes a c s :: real
  assumes "0 \<le> a" "a \<le> 1" "0 \<le> c" "c \<le> 1" "0 \<le> s" "s \<le> 1"
  shows "0 \<le> a + (c - a) * s \<and> a + (c - a) * s \<le> 1"
proof -
  have eq: "a + (c - a) * s = a * (1 - s) + c * s" by (simp add: algebra_simps)
  have n1: "0 \<le> a * (1 - s)" and n2: "0 \<le> c * s" using assms by simp_all
  have "a * (1 - s) \<le> 1 * (1 - s)" using assms by (intro mult_right_mono) simp_all
  then have u1: "a * (1 - s) \<le> 1 - s" by simp
  have "c * s \<le> 1 * s" using assms by (intro mult_right_mono) simp_all
  then have u2: "c * s \<le> s" by simp
  from n1 n2 u1 u2 show ?thesis unfolding eq by linarith
qed

lemma clamp_Num: "v \<noteq> NaN \<Longrightarrow> \<exists>c. Math_max (Num 0) (Math_min v (Num 1)) = Num c \<and> 0 \<le> c \<and> c \<le> 1"
  by (cases v) (auto simp: Math_max_def Math_min_def)

lemma unit_interval_iff: "unit_interval v \<longleftrightarrow> (\<exists>r. v = Num r \<and> 0 \<le> r \<and> r \<le> 1)"
  by (cases v) (auto simp: unit_interval_def)

lemma applyMorphTarget_stored:
  assumes "m t = Some (Num a)" "Math_max (Num 0) (Math_min v (Num 1)) = Num c"
  shows "applyMorphTarget t v (Num s) m = m(t \<mapsto> Num (a + (c - a) * s))"
  using assms by (simp add: applyMorphTarget_def js_sub_def)

lemma applyMorphTarget_valid:
  assumes "intensities_valid m" "v \<noteq> NaN" "0 \<le> s" "s \<le> 1"
  shows "intensities_valid (applyMorphTarget t v (Num s) m)"
proof (cases "m t")
  case None
  then show ?thesis using assms by (simp add: applyMorphTarget_def)
next
  case (Some cur)
  with assms(1) obtain a where a: "cur = Num a" "0 \<le> a" "a \<le> 1"
    by (auto simp: intensities_valid_def ran_def unit_interval_iff)
  from clamp_Num[OF assms(2)] obtain c where
    c: "Math_max (Num 0) (Math_min v (Num 1)) = Num c" "0 \<le> c" "c \<le> 1" by blast
  have st: "applyMorphTarget t v (Num s) m = m(t \<mapsto> Num (a + (c - a) * s))"
    using Some a c by (simp add: applyMorphTarget_stored)
  have "unit_interval (Num (a + (c - a) * s))"
    using convex_unit[OF a(2,3) c(2,3) assms(3,4)] by (simp add: unit_interval_def)
  then show ?thesis
    unfolding st using assms(1)
    by (auto simp: intensities_valid_def ran_def split: if_splits)
qed


lemma fold_valid:
  assumes "\<And>x m. x \<in> set xs \<Longrightarrow> intensities_valid m \<Longrightarrow> intensities_valid (f x m)"
    and "intensities_valid m"
  shows "intensities_valid (fold f xs m)"
  using assms by (induction xs arbitrary: m) auto

lemma facialExpressions_values:
  "map_of facialExpressions fe = Some mapping \<Longrightarrow> (k, v) \<in> set mapping \<Longrightarrow> \<exists>r. v = Num r"
  by (auto simp: facialExpressions_def split: if_splits)

lemma applyFacialExpression_valid:
  assumes "intensities_valid m" "snd entry = Num r"
  shows "intensities_valid (applyFacialExpression act entry m)"
proof -
  obtain k where e: "entry = (k, Num r)" using assms(2) by (cases entry) auto
  have a: "intensities_valid (applyMorphTarget k (Num r) (Num 0.1) m)"
    using assms(1) by (intro applyMorphTarget_valid) simp_all
  have b: "intensities_valid (applyMorphTarget k (Num (r * 0.3)) (Num 0.1) m)"
    using assms(1) by (intro applyMorphTarget_valid) simp_all
  show ?thesis using a b assms(1) by (simp add: e applyFacialExpression_def)
qed

lemma applyLipsyncViseme_valid:
  assumes "intensities_valid m"
  shows "intensities_valid (applyLipsyncViseme entry m)"
proof -
  obtain k v where e: "entry = (k, v)" by (cases entry)
  have "intensities_valid (applyMorphTarget t v ACTIVE_LERP_SPEED m)" if "js_gt v MIN_THRESHOLD" for t
    unfolding ACTIVE_LERP_SPEED_def using assms js_gt_not_NaN[OF that]
    by (intro applyMorphTarget_valid) simp_all
  then show ?thesis using assms
    by (auto simp: e applyLipsyncViseme_def split: option.splits)
qed

lemma returnToNeutral_valid:
  assumes "intensities_valid m"
  shows "intensities_valid (returnToNeutral act t m)"
proof -
  have "intensities_valid (applyMorphTarget t (Num 0) NEUTRAL_LERP_SPEED m)"
    unfolding NEUTRAL_LERP_SPEED_def using assms by (intro applyMorphTarget_valid) simp_all
  then show ?thesis using assms by (simp add: returnToNeutral_def)
qed

lemma simulateFrameUpdate_valid:
  assumes "intensities_valid m"
  shows "intensities_valid (simulateFrameUpdate m fe lv act)"
proof -
  define m1 where "m1 = (if fe \<noteq> [] then
                  (case map_of facialExpressions fe of
                     None \<Rightarrow> m
                   | Some mapping \<Rightarrow> fold (applyFacialExpression act) mapping m)
                else m)"
  define m2 where "m2 = (case lv of
                  None \<Rightarrow> m1
                | Some entries \<Rightarrow>
                    if act then fold applyLipsyncViseme entries m1 else m1)"
  have v1: "intensities_valid m1"
  proof (cases "map_of facialExpressions fe")
    case None
    then show ?thesis using assms by (simp add: m1_def)
  next
    case (Some mapping)
    have "intensities_valid (fold (applyFacialExpression act) mapping m)"
    proof (rule fold_valid[OF _ assms])
      fix x m' assume x: "x \<in> set mapping" and m': "intensities_valid m'"
      obtain k v where kv: "x = (k, v)" by (cases x)
      from facialExpressions_values[OF Some] x kv obtain r where "v = Num r" by blast
      then show "intensities_valid (applyFacialExpression act x m')"
        using m' kv by (intro applyFacialExpression_valid[where r = r]) simp_all
    qed
    then show ?thesis using assms Some by (simp add: m1_def)
  qed
  have v2: "intensities_valid m2"
    unfolding m2_def using v1
    by (auto split: option.splits intro: fold_valid applyLipsyncViseme_valid)
  have "intensities_valid (fold (returnToNeutral acts) allVisemeTargets m2)" for acts
    using v2 by (intro fold_valid returnToNeutral_valid)
  then show ?thesis
    unfolding simulateFrameUpdate_def Let_def m1_def[symmetric] m2_def[symmetric] by simp
qed

lemma simulateFrames_valid:
  "intensities_valid m \<Longrightarrow> intensities_valid (simulateFrames m frames)"
  by (induction m frames rule: simulateFrames.induct) (auto intro: simulateFrameUpdate_valid)

lemma createMock_valid: "intensities_valid createMockMorphTargetSystem"
  unfolding intensities_valid_def createMockMorphTargetSystem_def
  by (auto simp: ran_def map_of_eq_Some_iff unit_interval_def dest!: map_of_SomeD)

lemma clampValue_unit: "unit_interval (clampValue v)"
  by (cases v) (auto simp: clampValue_def Math_max_def Math_min_def unit_interval_def)

lemma clampValue_cases:
  "clampValue NaN = Num 0" "js_lt v (Num 0) \<Longrightarrow> clampValue v = Num 0"
  "js_gt v (Num 1) \<Longrightarrow> clampValue v = Num 1" "unit_interval v \<Longrightarrow> clampValue v = v"
  by (cases v; auto simp: clampValue_def Math_max_def Math_min_def unit_interval_def js_gt_def)+

subsection \<open>Viseme selection\<close>

text \<open>
  Claim C1. With maxBlendCount at least 1, the selection is the list of the entries whose
  score is strictly greater than minThreshold (each of them, as often as it occurs), put in
  descending order of score and cut to its first maxBlendCount entries. So at most
  maxBlendCount entries are selected, none of them with a score at or below the threshold,
  and the scores AA 0.8, E 0.4, I 0.2, O 0.05 with threshold 0.02 and count 3 select
  AA, E, I in this order.
\<close>

theorem activeVisemes_selection:
  assumes "1 \<le> maxBlendCount"
  shows "(let passing = filter (\<lambda>(k, v). js_gt v minThreshold) visemeScores;
              ranked = js_sort compareScores passing;
              selected = activeVisemes visemeScores minThreshold maxBlendCount
          in selected = take (nat maxBlendCount) ranked
           \<and> mset ranked = mset passing
           \<and> sorted_wrt (\<lambda>x y. js_ge (snd x) (snd y)) ranked
           \<and> int (length selected) \<le> maxBlendCount
           \<and> (\<forall>(k, v)\<in>set selected. js_gt v minThreshold \<and> \<not> js_le v minThreshold))
       \<and> map fst (activeVisemes
            [(''AA'', Num 0.8), (''E'', Num 0.4), (''I'', Num 0.2), (''O'', Num 0.05)]
            (Num 0.02) 3) = [''AA'', ''E'', ''I'']"
proof -
  define passing where "passing = filter (\<lambda>(k, v). js_gt v minThreshold) visemeScores"
  define ranked where "ranked = js_sort compareScores passing"
  define selected where "selected = activeVisemes visemeScores minThreshold maxBlendCount"
  have sel: "selected = take (nat maxBlendCount) ranked"
    using assms by (simp add: selected_def ranked_def passing_def activeVisemes_def slice0_nonneg)
  have ms: "mset ranked = mset passing"
    by (simp add: ranked_def mset_js_sort)
  have pass: "\<forall>y\<in>set passing. js_gt (snd y) minThreshold"
    by (auto simp: passing_def)
  then have nn: "\<forall>y\<in>set passing. snd y \<noteq> NaN"
    by (auto dest: js_gt_not_NaN)
  have srt: "sorted_wrt (\<lambda>x y. js_ge (snd x) (snd y)) ranked"
    unfolding ranked_def using nn by (rule sorted_js_sort)
  have len: "int (length selected) \<le> maxBlendCount"
    using assms by (simp add: sel)
  have "set selected \<subseteq> set passing"
    unfolding sel ranked_def using set_take_subset[of "nat maxBlendCount" "js_sort compareScores passing"]
    by (simp add: set_js_sort)
  with pass have "\<forall>y\<in>set selected. js_gt (snd y) minThreshold"
    by blast
  then have thr: "\<forall>(k, v)\<in>set selected. js_gt v minThreshold \<and> \<not> js_le v minThreshold"
    by (fastforce simp: js_le_def js_ge_def js_gt_def)
  have ex: "map fst (activeVisemes
            [(''AA'', Num 0.8), (''E'', Num 0.4), (''I'', Num 0.2), (''O'', Num 0.05)]
            (Num 0.02) 3) = [''AA'', ''E'', ''I'']"
    by (simp add: activeVisemes_def js_sort_def slice0_def compareScores_def js_gt_def js_sub_def)
  from sel ms srt len thr ex show ?thesis
    unfolding Let_def passing_def[symmetric] ranked_def[symmetric] selected_def[symmetric]
    by blast
qed

theorem activeVisemes_selection_witness:
  "(1::int) \<le> 1
   \<and> activeVisemes [(''viseme_AA'', Num 0.01), (''viseme_E'', Num 0.03), (''viseme_I'', Num 0.5)]
        MIN_THRESHOLD 1 = [(''viseme_I'', Num 0.5)]
   \<and> int (length (activeVisemes
        [(''viseme_AA'', Num 0.01), (''viseme_E'', Num 0.03), (''viseme_I'', Num 0.5)]
        MIN_THRESHOLD 1)) \<le> 1"
proof -
  have h: "(1::int) \<le> 1" by simp
  have v: "activeVisemes [(''viseme_AA'', Num 0.01), (''viseme_E'', Num 0.03), (''viseme_I'', Num 0.5)]
        MIN_THRESHOLD 1 = [(''viseme_I'', Num 0.5)]"
    by (simp add: activeVisemes_def js_sort_def slice0_def compareScores_def js_gt_def js_sub_def
          MIN_THRESHOLD_def)
  from activeVisemes_selection[OF h,
      of MIN_THRESHOLD "[(''viseme_AA'', Num 0.01), (''viseme_E'', Num 0.03), (''viseme_I'', Num 0.5)]"]
  have "int (length (activeVisemes
        [(''viseme_AA'', Num 0.01), (''viseme_E'', Num 0.03), (''viseme_I'', Num 0.5)]
        MIN_THRESHOLD 1)) \<le> 1"
    unfolding Let_def by blast
  with h v show ?thesis by blast
qed

subsection \<open>Clamping of intensity writes\<close>

text \<open>
  Claim C2, as stated, does not hold of a write: applyMorphTarget stores the interpolation
  between the current intensity and the clamped value, not the clamped value, so the value
  -0.5 written at speed 0.2 over a current intensity 0.5 stores 0.4 and not 0; and it has no
  guard for NaN, which is stored as NaN.
\<close>

theorem blend_write_clamped_counterexample:
  "applyMorphTarget ''viseme_AA'' (Num (- 0.5)) (Num 0.2)
      (createMockMorphTargetSystem(''viseme_AA'' \<mapsto> Num 0.5)) ''viseme_AA'' = Some (Num 0.4)
   \<and> applyMorphTarget ''viseme_AA'' NaN (Num 0.1) createMockMorphTargetSystem ''viseme_AA''
        = Some NaN"
  by (simp add: applyMorphTarget_def createMockMorphTargetSystem_def morphTargetNames_def
       Math_max_def Math_min_def js_sub_def)

text \<open>
  Claim C2, amended. clampValue returns a number of the interval from 0 to 1 for every
  input: 0 for NaN and for inputs below 0, 1 for inputs above 1. A write by applyMorphTarget
  of a value other than NaN, at a speed between 0 and 1, over a current intensity between
  0 and 1, clamps the value in the same way and stores
  current + (clamped - current) * speed, which lies between 0 and 1. The per-frame step
  never writes a NaN viseme score (such a score fails the threshold test and the entry is
  skipped), and it keeps every intensity of the store between 0 and 1, for every expression
  name, every viseme sample and any number of frames, starting from the initial store.
\<close>

theorem blend_write_clamped:
  "unit_interval (clampValue v)
   \<and> clampValue NaN = Num 0
   \<and> (js_lt v (Num 0) \<longrightarrow> clampValue v = Num 0)
   \<and> (js_gt v (Num 1) \<longrightarrow> clampValue v = Num 1)
   \<and> (v \<noteq> NaN \<and> 0 \<le> s \<and> s \<le> 1 \<and> m t = Some (Num a) \<and> 0 \<le> a \<and> a \<le> 1 \<longrightarrow>
        (\<exists>c. clampValue v = Num c
           \<and> applyMorphTarget t v (Num s) m t = Some (Num (a + (c - a) * s))
           \<and> unit_interval (Num (a + (c - a) * s))))
   \<and> (\<forall>entry\<in>set entries. snd entry = NaN \<longrightarrow> applyLipsyncViseme entry m = m)
   \<and> (intensities_valid m \<longrightarrow> intensities_valid (simulateFrameUpdate m fe lv act))
   \<and> (intensities_valid m \<longrightarrow> intensities_valid (simulateFrames m frames))
   \<and> intensities_valid createMockMorphTargetSystem"
proof -
  have w: "\<exists>c. clampValue v = Num c
           \<and> applyMorphTarget t v (Num s) m t = Some (Num (a + (c - a) * s))
           \<and> unit_interval (Num (a + (c - a) * s))"
    if h: "v \<noteq> NaN" "0 \<le> s" "s \<le> 1" "m t = Some (Num a)" "0 \<le> a" "a \<le> 1"
  proof -
    from clamp_Num[OF h(1)] obtain c where
      c: "Math_max (Num 0) (Math_min v (Num 1)) = Num c" "0 \<le> c" "c \<le> 1" by blast
    have "clampValue v = Num c" using h(1) c(1) by (simp add: clampValue_def)
    moreover have "applyMorphTarget t v (Num s) m t = Some (Num (a + (c - a) * s))"
      using applyMorphTarget_stored[of m t a v c s] h(4) c(1) by simp
    moreover have "unit_interval (Num (a + (c - a) * s))"
      using convex_unit[OF h(5,6) c(2,3) h(2,3)] by (simp add: unit_interval_def)
    ultimately show ?thesis by blast
  qed
  have n: "\<forall>entry\<in>set entries. snd entry = NaN \<longrightarrow> applyLipsyncViseme entry m = m"
    by (auto simp: applyLipsyncViseme_def js_gt_def split: option.splits)
  show ?thesis
    using w n clampValue_unit[of v] clampValue_cases(1) clampValue_cases(2)[of v]
      clampValue_cases(3)[of v] simulateFrameUpdate_valid[of m fe lv act]
      simulateFrames_valid[of m frames] createMock_valid
    by blast
qed

theorem blend_write_clamped_witness:
  "intensities_valid createMockMorphTargetSystem
   \<and> intensities_valid (simulateFrameUpdate createMockMorphTargetSystem ''smile''
        (Some [(''viseme_AA'', Num 2.0), (''viseme_E'', Num (- 0.5)), (''viseme_I'', NaN)]) True)
   \<and> js_gt (Num 2.0) (Num 1) \<and> clampValue (Num 2.0) = Num 1
   \<and> js_lt (Num (- 0.5)) (Num 0) \<and> clampValue (Num (- 0.5)) = Num 0
   \<and> applyLipsyncViseme (''viseme_I'', NaN) createMockMorphTargetSystem
        = createMockMorphTargetSystem"
proof -
  note t = blend_write_clamped[of _ _ createMockMorphTargetSystem _ _
      "[(''viseme_I'', NaN)]" "''smile''"
      "Some [(''viseme_AA'', Num 2.0), (''viseme_E'', Num (- 0.5)), (''viseme_I'', NaN)]" True]
  have v0: "intensities_valid createMockMorphTargetSystem"
    using t by blast
  have v1: "intensities_valid (simulateFrameUpdate createMockMorphTargetSystem ''smile''
        (Some [(''viseme_AA'', Num 2.0), (''viseme_E'', Num (- 0.5)), (''viseme_I'', NaN)]) True)"
    using t v0 by blast
  have g: "js_gt (Num 2.0) (Num 1)" "js_lt (Num (- 0.5)) (Num 0)"
    by (simp_all add: js_gt_def)
  have c1: "clampValue (Num 2.0) = Num 1"
    using blend_write_clamped[of "Num 2.0"] g(1) by blast
  have c2: "clampValue (Num (- 0.5)) = Num 0"
    using blend_write_clamped[of "Num (- 0.5)"] g(2) by blast
  have n: "applyLipsyncViseme (''viseme_I'', NaN) createMockMorphTargetSystem
        = createMockMorphTargetSystem"
    using t by simp
  from v0 v1 g c1 c2 n show ?thesis by blast
qed

subsection \<open>Decay of unselected viseme targets\<close>

text \<open>
  One application of the decay law \<^verbatim>\<open>current += (0 - current) * neutralSpeed\<close> with speed 0.2
  multiplies the intensity by 0.8. Iterated from c with 0 < c and c at most 1, it gives
  c * 0.8 ^ n, a strictly decreasing positive sequence below 0.02 from the 18th application
  on (and not before, when c is 1).
\<close>

lemma neutral_decay_step:
  "m t = Some (Num c) \<Longrightarrow>
     applyMorphTarget t (Num 0) NEUTRAL_LERP_SPEED m = m(t \<mapsto> Num (c * 0.8))"
  by (simp add: applyMorphTarget_def NEUTRAL_LERP_SPEED_def Math_max_def Math_min_def js_sub_def
        algebra_simps)

lemma neutral_decay_other:
  "t' \<noteq> t \<Longrightarrow> applyMorphTarget t' v s m t = m t"
  by (simp add: applyMorphTarget_def Let_def split: option.splits)

lemma neutral_decay_iterate:
  "m t = Some (Num c) \<Longrightarrow>
     ((applyMorphTarget t (Num 0) NEUTRAL_LERP_SPEED) ^^ n) m t = Some (Num (c * 0.8 ^ n))"
  by (induction n) (simp_all add: neutral_decay_step)

lemma neutral_decay_sequence:
  fixes c :: real
  assumes "0 < c" "c \<le> 1"
  shows "c * 0.8 ^ Suc n < c * 0.8 ^ n" "0 < c * 0.8 ^ n" "18 \<le> n \<Longrightarrow> c * 0.8 ^ n < 0.02"
proof -
  show "c * 0.8 ^ Suc n < c * 0.8 ^ n" using assms by simp
  show "0 < c * 0.8 ^ n" using assms by simp
  assume n: "18 \<le> n"
  have "(0.8::real) ^ n \<le> 0.8 ^ 18" using n by (intro power_decreasing) simp_all
  also have "(0.8::real) ^ 18 < 0.02" by (simp add: power_numeral_reduce)
  finally have p: "(0.8::real) ^ n < 0.02" .
  have "c * 0.8 ^ n \<le> 1 * 0.8 ^ n" using assms by (intro mult_right_mono) simp_all
  then have "c * 0.8 ^ n \<le> 0.8 ^ n" by simp
  with p show "c * 0.8 ^ n < 0.02" by linarith
qed

lemma neutral_decay_17: "\<not> (1 * (0.8::real) ^ 17 < 0.02)"
  by (simp add: power_numeral_reduce)

lemma fold_returnToNeutral:
  "t \<notin> set active \<Longrightarrow> m t = Some (Num c) \<Longrightarrow>
     fold (returnToNeutral active) ts m t = Some (Num (c * 0.8 ^ count_list ts t))"
proof (induction ts arbitrary: m c)
  case Nil
  then show ?case by simp
next
  case (Cons x ts)
  show ?case
  proof (cases "x = t")
    case True
    have "returnToNeutral active x m t = Some (Num (c * 0.8))"
      using Cons.prems True by (simp add: returnToNeutral_def neutral_decay_step)
    with Cons.IH[of "returnToNeutral active x m" "c * 0.8"] Cons.prems(1) True show ?thesis
      by (simp add: mult.assoc)
  next
    case False
    have "returnToNeutral active x m t = Some (Num c)"
      using Cons.prems False by (simp add: returnToNeutral_def neutral_decay_other)
    with Cons.IH[of "returnToNeutral active x m" c] Cons.prems(1) False show ?thesis by simp
  qed
qed

lemma allVisemeTargets_count:
  "count_list allVisemeTargets ''viseme_E'' = 2" "count_list allVisemeTargets ''viseme_sil'' = 1"
  by (simp_all add: allVisemeTargets_def visemeMapping_def)

text \<open>
  Claim C3 speaks of frames. In simulateFrameUpdate the decay loop runs over
  \<^verbatim>\<open>Object.values(visemeMapping)\<close>, which lists the targets viseme_AA, viseme_E, viseme_I,
  viseme_O and viseme_U twice (once for the long key, once for the one-letter key): each
  of them gets the decay law applied twice in a frame. From intensity 1, one frame with no
  viseme sample leaves viseme_E at 0.64 (the claim: 0.8), while viseme_sil, listed once, is
  left at 0.8.
\<close>

theorem neutral_decay_frame_rate:
  "simulateFrameUpdate (createMockMorphTargetSystem(''viseme_E'' \<mapsto> Num 1, ''viseme_sil'' \<mapsto> Num 1))
       ''default'' (Some []) False ''viseme_E'' = Some (Num 0.64)
   \<and> simulateFrameUpdate (createMockMorphTargetSystem(''viseme_E'' \<mapsto> Num 1, ''viseme_sil'' \<mapsto> Num 1))
       ''default'' (Some []) False ''viseme_sil'' = Some (Num 0.8)"
proof -
  define m where "m = createMockMorphTargetSystem(''viseme_E'' \<mapsto> Num 1, ''viseme_sil'' \<mapsto> Num 1)"
  have f: "simulateFrameUpdate m ''default'' (Some []) False
             = fold (returnToNeutral []) allVisemeTargets m"
    by (simp add: simulateFrameUpdate_def facialExpressions_def)
  have e: "m ''viseme_E'' = Some (Num 1)" and s: "m ''viseme_sil'' = Some (Num 1)"
    by (simp_all add: m_def)
  have "fold (returnToNeutral []) allVisemeTargets m ''viseme_E'' = Some (Num 0.64)"
    using fold_returnToNeutral[of "''viseme_E''" "[]" m 1 allVisemeTargets] e
    by (simp add: allVisemeTargets_count power2_eq_square)
  moreover have "fold (returnToNeutral []) allVisemeTargets m ''viseme_sil'' = Some (Num 0.8)"
    using fold_returnToNeutral[of "''viseme_sil''" "[]" m 1 allVisemeTargets] s
    by (simp add: allVisemeTargets_count)
  ultimately show ?thesis unfolding m_def[symmetric] f by simp
qed

subsection \<open>Error classification\<close>

lemma str_includes_sublist: "str_includes s sub \<longleftrightarrow> sublist sub s"
  by (induction s) (simp_all add: sublist_Cons_right)

lemma lower_char_idem: "lower_char (lower_char c) = lower_char c"
  by (simp add: lower_char_def)

lemma toLowerCase_idem: "toLowerCase (toLowerCase s) = toLowerCase s"
  by (simp add: toLowerCase_def lower_char_idem)

lemma toLowerCase_Nil: "toLowerCase [] = []"
  by (simp add: toLowerCase_def)

lemma error_types_distinct: "distinct LIPSYNC_ERROR_TYPES"
  by (simp add: LIPSYNC_ERROR_TYPES_def error_type_defs)

lemma first_match_range:
  "(if r1 then CONTEXT_ERROR
    else if r2 then AUDIO_CONNECTION_FAILED
    else if r3 then PROCESSING_ERROR
    else if r4 then BROWSER_UNSUPPORTED
    else if r5 then INITIALIZATION_FAILED
    else UNKNOWN_ERROR) \<in> set LIPSYNC_ERROR_TYPES"
  by (simp add: LIPSYNC_ERROR_TYPES_def)

lemma categorizeError_range: "categorizeError err \<in> set LIPSYNC_ERROR_TYPES"
proof (cases err)
  case None
  then show ?thesis by (simp add: categorizeError_def LIPSYNC_ERROR_TYPES_def)
next
  case (Some e)
  show ?thesis
    unfolding Some categorizeError_def option.case Let_def by (rule first_match_range)
qed

text \<open>
  Claim C4, as stated, fails in its last part: a message that contains both "audio" and
  "process" is not classified as an audio connection failure when it also contains
  "context" (as every message naming the AudioContext does); the first rule wins.
\<close>

theorem categorizeError_first_match_counterexample:
  "str_includes (toLowerCase ''AudioContext failed to process audio'') ''audio''
   \<and> str_includes (toLowerCase ''AudioContext failed to process audio'') ''process''
   \<and> categorizeError (Some \<lparr>message = Some ''AudioContext failed to process audio'',
                             name = Some ''Error''\<rparr>) = CONTEXT_ERROR
   \<and> categorizeError (Some \<lparr>message = Some ''AudioContext failed to process audio'',
                             name = Some ''Error''\<rparr>) \<noteq> AUDIO_CONNECTION_FAILED"
  by (simp add: categorizeError_def toLowerCase_def lower_char_def error_type_defs)

text \<open>
  Claim C4, amended. categorizeError returns exactly one of the six kinds for every
  Error-like value, and the unknown kind for an absent one. It depends only on the
  lower-cased message and name. The rules are tried in a fixed order and the first match
  wins: (1) name contains "invalidstate" or message contains "context": context error;
  (2) message contains "audio" or "connect": audio connection failure; (3) "process" or
  "analyze": processing error; (4) "not supported" or "unavailable": unsupported browser;
  (5) "init" or "constructor": initialization failure; otherwise unknown. A message with
  both "audio" and "process" is an audio connection failure provided rule (1) does not
  match.
\<close>

theorem categorizeError_first_match:
  "categorizeError None = UNKNOWN_ERROR
   \<and> categorizeError err \<in> set LIPSYNC_ERROR_TYPES
   \<and> categorizeError (Some \<lparr>message = map_option toLowerCase (message e),
                             name = map_option toLowerCase (name e)\<rparr>) = categorizeError (Some e)
   \<and> (let msg = toLowerCase (case message e of None \<Rightarrow> [] | Some m \<Rightarrow> m);
          nm = toLowerCase (case name e of None \<Rightarrow> [] | Some n \<Rightarrow> n);
          r1 = (sublist ''invalidstate'' nm \<or> sublist ''context'' msg);
          r2 = (sublist ''audio'' msg \<or> sublist ''connect'' msg);
          r3 = (sublist ''process'' msg \<or> sublist ''analyze'' msg);
          r4 = (sublist ''not supported'' msg \<or> sublist ''unavailable'' msg);
          r5 = (sublist ''init'' msg \<or> sublist ''constructor'' msg)
      in (categorizeError (Some e) = CONTEXT_ERROR \<longleftrightarrow> r1)
       \<and> (categorizeError (Some e) = AUDIO_CONNECTION_FAILED \<longleftrightarrow> \<not> r1 \<and> r2)
       \<and> (categorizeError (Some e) = PROCESSING_ERROR \<longleftrightarrow> \<not> r1 \<and> \<not> r2 \<and> r3)
       \<and> (categorizeError (Some e) = BROWSER_UNSUPPORTED \<longleftrightarrow> \<not> r1 \<and> \<not> r2 \<and> \<not> r3 \<and> r4)
       \<and> (categorizeError (Some e) = INITIALIZATION_FAILED
             \<longleftrightarrow> \<not> r1 \<and> \<not> r2 \<and> \<not> r3 \<and> \<not> r4 \<and> r5)
       \<and> (categorizeError (Some e) = UNKNOWN_ERROR
             \<longleftrightarrow> \<not> r1 \<and> \<not> r2 \<and> \<not> r3 \<and> \<not> r4 \<and> \<not> r5)
       \<and> (sublist ''audio'' msg \<and> sublist ''process'' msg \<and> \<not> r1
             \<longrightarrow> categorizeError (Some e) = AUDIO_CONNECTION_FAILED))"
proof -
  define msg where "msg = toLowerCase (case message e of None \<Rightarrow> [] | Some m \<Rightarrow> m)"
  define nm where "nm = toLowerCase (case name e of None \<Rightarrow> [] | Some n \<Rightarrow> n)"
  define r1 where "r1 = (sublist ''invalidstate'' nm \<or> sublist ''context'' msg)"
  define r2 where "r2 = (sublist ''audio'' msg \<or> sublist ''connect'' msg)"
  define r3 where "r3 = (sublist ''process'' msg \<or> sublist ''analyze'' msg)"
  define r4 where "r4 = (sublist ''not supported'' msg \<or> sublist ''unavailable'' msg)"
  define r5 where "r5 = (sublist ''init'' msg \<or> sublist ''constructor'' msg)"
  have a: "categorizeError None = UNKNOWN_ERROR"
    by (simp add: categorizeError_def)
  have m: "(case message e of None \<Rightarrow> [] | Some m \<Rightarrow> toLowerCase m) = msg"
    and n: "(case name e of None \<Rightarrow> [] | Some n \<Rightarrow> toLowerCase n) = nm"
    by (simp_all add: msg_def nm_def toLowerCase_def split: option.splits)
  have d: "categorizeError (Some e) =
      (if r1 then CONTEXT_ERROR
       else if r2 then AUDIO_CONNECTION_FAILED
       else if r3 then PROCESSING_ERROR
       else if r4 then BROWSER_UNSUPPORTED
       else if r5 then INITIALIZATION_FAILED
       else UNKNOWN_ERROR)"
    unfolding categorizeError_def option.case m n Let_def str_includes_sublist
      r1_def r2_def r3_def r4_def r5_def ..
  have b: "categorizeError err \<in> set LIPSYNC_ERROR_TYPES"
    by (rule categorizeError_range)
  have c: "categorizeError (Some \<lparr>message = map_option toLowerCase (message e),
                             name = map_option toLowerCase (name e)\<rparr>) = categorizeError (Some e)"
  proof -
    have "(case map_option toLowerCase (message e) of None \<Rightarrow> [] | Some m \<Rightarrow> toLowerCase m) = msg"
      and "(case map_option toLowerCase (name e) of None \<Rightarrow> [] | Some n \<Rightarrow> toLowerCase n) = nm"
      by (simp_all add: msg_def nm_def toLowerCase_idem toLowerCase_Nil split: option.splits)
    then show ?thesis
      unfolding categorizeError_def option.case m n by simp
  qed
  have k: "(categorizeError (Some e) = CONTEXT_ERROR \<longleftrightarrow> r1)
       \<and> (categorizeError (Some e) = AUDIO_CONNECTION_FAILED \<longleftrightarrow> \<not> r1 \<and> r2)
       \<and> (categorizeError (Some e) = PROCESSING_ERROR \<longleftrightarrow> \<not> r1 \<and> \<not> r2 \<and> r3)
       \<and> (categorizeError (Some e) = BROWSER_UNSUPPORTED \<longleftrightarrow> \<not> r1 \<and> \<not> r2 \<and> \<not> r3 \<and> r4)
       \<and> (categorizeError (Some e) = INITIALIZATION_FAILED
             \<longleftrightarrow> \<not> r1 \<and> \<not> r2 \<and> \<not> r3 \<and> \<not> r4 \<and> r5)
       \<and> (categorizeError (Some e) = UNKNOWN_ERROR
             \<longleftrightarrow> \<not> r1 \<and> \<not> r2 \<and> \<not> r3 \<and> \<not> r4 \<and> \<not> r5)
       \<and> (sublist ''audio'' msg \<and> sublist ''process'' msg \<and> \<not> r1
             \<longrightarrow> categorizeError (Some e) = AUDIO_CONNECTION_FAILED)"
    unfolding d
    by (cases r1; cases r2; cases r3; cases r4; cases r5) (simp_all add: error_type_defs r2_def)
  from a b c k show ?thesis
    unfolding Let_def msg_def[symmetric] nm_def[symmetric]
      r1_def[symmetric] r2_def[symmetric] r3_def[symmetric] r4_def[symmetric] r5_def[symmetric]
    by blast
qed

theorem categorizeError_first_match_witness:
  "sublist ''audio'' (toLowerCase ''Failed to PROCESS Audio'')
   \<and> sublist ''process'' (toLowerCase ''Failed to PROCESS Audio'')
   \<and> \<not> (sublist ''invalidstate'' (toLowerCase ''TypeError'')
         \<or> sublist ''context'' (toLowerCase ''Failed to PROCESS Audio''))
   \<and> categorizeError (Some \<lparr>message = Some ''Failed to PROCESS Audio'', name = Some ''TypeError''\<rparr>)
        = AUDIO_CONNECTION_FAILED"
proof -
  have h: "sublist ''audio'' (toLowerCase ''Failed to PROCESS Audio'')"
     "sublist ''process'' (toLowerCase ''Failed to PROCESS Audio'')"
     "\<not> (sublist ''invalidstate'' (toLowerCase ''TypeError'')
         \<or> sublist ''context'' (toLowerCase ''Failed to PROCESS Audio''))"
    unfolding str_includes_sublist[symmetric]
    by (simp_all add: toLowerCase_def lower_char_def)
  from categorizeError_first_match[of _ "\<lparr>message = Some ''Failed to PROCESS Audio'', name = Some ''TypeError''\<rparr>"]
  have "sublist ''audio'' (toLowerCase ''Failed to PROCESS Audio'')
      \<and> sublist ''process'' (toLowerCase ''Failed to PROCESS Audio'')
      \<and> \<not> (sublist ''invalidstate'' (toLowerCase ''TypeError'')
         \<or> sublist ''context'' (toLowerCase ''Failed to PROCESS Audio''))
      \<longrightarrow> categorizeError (Some \<lparr>message = Some ''Failed to PROCESS Audio'', name = Some ''TypeError''\<rparr>)
        = AUDIO_CONNECTION_FAILED"
    unfolding Let_def by simp
  with h show ?thesis by blast
qed

subsection \<open>Fallback synthesis\<close>

lemma clamp_real: "Math_max (Num 0) (Math_min (Num y) (Num 1)) = Num (max 0 (min y 1))"
  by (simp add: Math_max_def Math_min_def max_def min_def)

text \<open>
  Claim C8. generateFallbackLipsync returns the empty mapping when the audio source is
  absent, paused or ended, when its duration is falsy (zero or NaN) and when the current
  time has reached the duration. Otherwise the result has exactly the keys viseme_AA,
  viseme_E, viseme_I, viseme_O, in this order, with values one base value times the weights
  0.7, 0.3, 0.2, 0.4; for a finite time t and intensity x the base value is
  sin (t * 8) * x + x clamped to the interval from 0 to 1. The result is a function of
  the two arguments alone.
\<close>

theorem generateFallbackLipsync_spec:
  "(audio = None \<longrightarrow> generateFallbackLipsync audio i = [])
   \<and> (audio = Some a \<and> (paused a \<or> ended a \<or> falsy (duration a)
          \<or> js_ge (currentTime a) (duration a))
        \<longrightarrow> generateFallbackLipsync audio i = [])
   \<and> (audio = Some a \<and> \<not> paused a \<and> \<not> ended a \<and> \<not> falsy (duration a)
          \<and> \<not> js_ge (currentTime a) (duration a)
        \<longrightarrow> map fst (generateFallbackLipsync audio i)
              = [''viseme_AA'', ''viseme_E'', ''viseme_I'', ''viseme_O'']
          \<and> (\<exists>base. map snd (generateFallbackLipsync audio i)
                = map (\<lambda>w. js_mul base (Num w)) [0.7, 0.3, 0.2, 0.4])
          \<and> (\<forall>t x. currentTime a = Num t \<and> (case i of None \<Rightarrow> Num 0.5 | Some v \<Rightarrow> v) = Num x
                \<longrightarrow> (\<exists>base. base = max 0 (min (sin (t * 8) * x + x) 1) \<and> 0 \<le> base \<and> base \<le> 1
                      \<and> generateFallbackLipsync audio i
                          = [(''viseme_AA'', Num (base * 0.7)), (''viseme_E'', Num (base * 0.3)),
                             (''viseme_I'', Num (base * 0.2)), (''viseme_O'', Num (base * 0.4))])))"
proof -
  have e1: "audio = None \<longrightarrow> generateFallbackLipsync audio i = []"
    by (simp add: generateFallbackLipsync_def)
  have e2: "audio = Some a \<and> (paused a \<or> ended a \<or> falsy (duration a)
          \<or> js_ge (currentTime a) (duration a))
        \<longrightarrow> generateFallbackLipsync audio i = []"
    by (auto simp: generateFallbackLipsync_def Let_def)
  have e3: "map fst (generateFallbackLipsync audio i)
              = [''viseme_AA'', ''viseme_E'', ''viseme_I'', ''viseme_O'']
          \<and> (\<exists>base. map snd (generateFallbackLipsync audio i)
                = map (\<lambda>w. js_mul base (Num w)) [0.7, 0.3, 0.2, 0.4])
          \<and> (\<forall>t x. currentTime a = Num t \<and> (case i of None \<Rightarrow> Num 0.5 | Some v \<Rightarrow> v) = Num x
                \<longrightarrow> (\<exists>base. base = max 0 (min (sin (t * 8) * x + x) 1) \<and> 0 \<le> base \<and> base \<le> 1
                      \<and> generateFallbackLipsync audio i
                          = [(''viseme_AA'', Num (base * 0.7)), (''viseme_E'', Num (base * 0.3)),
                             (''viseme_I'', Num (base * 0.2)), (''viseme_O'', Num (base * 0.4))]))"
    if h: "audio = Some a" "\<not> paused a" "\<not> ended a" "\<not> falsy (duration a)"
          "\<not> js_ge (currentTime a) (duration a)"
  proof -
    define x where "x = (case i of None \<Rightarrow> Num 0.5 | Some v \<Rightarrow> v)"
    define base where "base = Math_max (Num 0)
        (Math_min (js_add (js_mul (Math_sin (js_mul (currentTime a) (Num 8))) x) x) (Num 1))"
    have g: "generateFallbackLipsync audio i =
        [(''viseme_AA'', js_mul base (Num 0.7)), (''viseme_E'', js_mul base (Num 0.3)),
         (''viseme_I'', js_mul base (Num 0.2)), (''viseme_O'', js_mul base (Num 0.4))]"
      using h by (simp add: generateFallbackLipsync_def Let_def x_def base_def)
    have f: "\<exists>b. b = max 0 (min (sin (t * 8) * r + r) 1) \<and> 0 \<le> b \<and> b \<le> 1
                      \<and> generateFallbackLipsync audio i
                          = [(''viseme_AA'', Num (b * 0.7)), (''viseme_E'', Num (b * 0.3)),
                             (''viseme_I'', Num (b * 0.2)), (''viseme_O'', Num (b * 0.4))]"
      if "currentTime a = Num t" "x = Num r" for t r
    proof -
      have "base = Num (max 0 (min (sin (t * 8) * r + r) 1))"
        unfolding base_def that by (simp add: clamp_real)
      then show ?thesis unfolding g by simp
    qed
    from g f show ?thesis unfolding x_def by auto
  qed
  from e1 e2 e3 show ?thesis by blast
qed

theorem generateFallbackLipsync_spec_witness:
  "generateFallbackLipsync
      (Some \<lparr>paused = False, ended = False, currentTime = Num 0, duration = Num 5\<rparr>) None
     = [(''viseme_AA'', Num 0.35), (''viseme_E'', Num 0.15),
        (''viseme_I'', Num 0.1), (''viseme_O'', Num 0.2)]
   \<and> generateFallbackLipsync
      (Some \<lparr>paused = True, ended = False, currentTime = Num 0, duration = Num 5\<rparr>) None = []
   \<and> generateFallbackLipsync
      (Some \<lparr>paused = False, ended = False, currentTime = Num 0, duration = NaN\<rparr>) None = []"
proof -
  let ?a = "\<lparr>paused = False, ended = False, currentTime = Num 0, duration = Num 5\<rparr>"
  let ?b = "\<lparr>paused = True, ended = False, currentTime = Num 0, duration = Num 5\<rparr>"
  let ?c = "\<lparr>paused = False, ended = False, currentTime = Num 0, duration = NaN\<rparr>"
  have pre: "Some ?a = Some ?a \<and> \<not> paused ?a \<and> \<not> ended ?a \<and> \<not> falsy (duration ?a)
      \<and> \<not> js_ge (currentTime ?a) (duration ?a)"
    by (simp add: falsy_def js_ge_def)
  note c3 = generateFallbackLipsync_spec[of "Some ?a" None ?a,
      THEN conjunct2, THEN conjunct2, THEN mp, OF pre]
  note f = c3[THEN conjunct2, THEN conjunct2, THEN spec, THEN spec, THEN mp, of 0 "0.5"]
  have "currentTime ?a = Num 0 \<and> (case None of None \<Rightarrow> Num 0.5 | Some v \<Rightarrow> v) = Num 0.5"
    by simp
  from f[OF this] obtain base :: real where
    b: "base = max 0 (min (sin (0 * 8) * 0.5 + 0.5) 1)" and
    g: "generateFallbackLipsync (Some ?a) None
          = [(''viseme_AA'', Num (base * 0.7)), (''viseme_E'', Num (base * 0.3)),
             (''viseme_I'', Num (base * 0.2)), (''viseme_O'', Num (base * 0.4))]"
    by blast
  from b have "base = 0.5" by simp
  with g have 1: "generateFallbackLipsync (Some ?a) None
     = [(''viseme_AA'', Num 0.35), (''viseme_E'', Num 0.15),
        (''viseme_I'', Num 0.1), (''viseme_O'', Num 0.2)]"
    by simp
  have 2: "generateFallbackLipsync (Some ?b) None = []"
    using generateFallbackLipsync_spec[of "Some ?b" None ?b] by simp
  have 3: "generateFallbackLipsync (Some ?c) None = []"
    using generateFallbackLipsync_spec[of "Some ?c" None ?c] by (simp add: falsy_def)
  from 1 2 3 show ?thesis by blast
qed

subsection \<open>Capability detection\<close>








subsection \<open>Performance monitors\<close>

lemma endTiming_fifo:
  assumes "processingTime m = drop (length ds - 100) ds"
  shows "processingTime (endTiming now st m)
           = drop (length (ds @ [js_sub now st]) - 100) (ds @ [js_sub now st])"
proof (cases "length ds < 100")
  case True
  then show ?thesis using assms by (simp add: endTiming_def Let_def)
next
  case False
  then have l: "length (drop (length ds - 100) ds) = 100" by simp
  have "tl (drop (length ds - 100) ds @ [js_sub now st])
          = drop (Suc (length ds - 100)) ds @ [js_sub now st]"
    using l by (cases "drop (length ds - 100) ds") (simp_all add: drop_Suc drop_tl tl_drop)
  moreover have "Suc (length ds - 100) = Suc (length ds) - 100" using False by simp
  ultimately show ?thesis using assms l False by (simp add: endTiming_def Let_def)
qed

lemma monitorCall_fifo:
  assumes "processingTime m = drop (length ds - 100) ds"
  shows "processingTime (monitorCall c m)
           = drop (length (ds @ durationsOf [c]) - 100) (ds @ durationsOf [c])"
  using assms endTiming_fifo[OF assms]
  by (cases c) (simp_all add: recordSuccess_def recordError_def)

lemma durationsOf_Cons: "durationsOf (c # calls) = durationsOf [c] @ durationsOf calls"
  by (cases c) simp_all

lemma fold_monitorCall_fifo:
  "processingTime m = drop (length ds - 100) ds \<Longrightarrow>
     processingTime (fold monitorCall calls m)
       = drop (length (ds @ durationsOf calls) - 100) (ds @ durationsOf calls)"
proof (induction calls arbitrary: m ds)
  case Nil
  then show ?case by simp
next
  case (Cons c calls)
  from Cons.IH[OF monitorCall_fifo[OF Cons.prems, of c]]
  show ?case by (simp add: durationsOf_Cons[of c calls])
qed

lemma monitor_history_fifo:
  "processingTime (runMonitor calls)
     = drop (length (durationsOf calls) - 100) (durationsOf calls)"
  using fold_monitorCall_fifo[of newMonitor "[]" calls]
  by (simp add: runMonitor_def newMonitor_def)

lemma monitor_history_bounded: "length (processingTime (runMonitor calls)) \<le> 100"
  by (simp add: monitor_history_fifo)

lemma monitor_errorRate:
  "mon_errorRate (getStats m) =
     (if errorCount m + successCount m = 0 then Num 0
      else Num (real (errorCount m) / (real (errorCount m) + real (successCount m))))"
  by (auto simp: getStats_def Let_def falsy_def)

lemma optimizer_measurements_grow:
  "length (measurements (fold optimizerCall (replicate n (OptEndTiming e s op)) st))
     = length (measurements st) + n"
  by (induction n arbitrary: st) (simp_all add: opt_endTiming_def Let_def)

text \<open>
  Claim C7 holds of LipsyncPerformanceMonitor (the three lemmas above: the history is the
  last 100 measured durations, oldest dropped first, and the error rate is
  errors / (errors + successes), or 0 when both counters are 0). It fails for the second
  class with the same operations, LipsyncPerformanceOptimizer: its \<^verbatim>\<open>endTiming\<close> appends
  without any cap, and its \<^verbatim>\<open>getStats\<close> divides without the \<^verbatim>\<open>|| 0\<close>. After 101 timed
  operations the optimizer holds 101 measurements where the monitor holds 100, and a fresh
  optimizer reports the error rate NaN where a fresh monitor reports 0.
\<close>

theorem optimizer_history_unbounded:
  "length (measurements
     (fold optimizerCall (replicate 101 (OptEndTiming (Num 1) (Num 0) ''lipsync-processing''))
        (newOptimizer (Num 0) None))) = 101
   \<and> errorRate (opt_getStats (Num 1) None (newOptimizer (Num 0) None)) = NaN
   \<and> length (processingTime (runMonitor (replicate 101 (EndTiming (Num 1) (Num 0))))) = 100
   \<and> mon_errorRate (getStats newMonitor) = Num 0"
proof -
  have d: "durationsOf (replicate n (EndTiming (Num 1) (Num 0))) = replicate n (Num 1)" for n
    by (induction n) (simp_all add: js_sub_def)
  have "length (processingTime (runMonitor (replicate 101 (EndTiming (Num 1) (Num 0))))) = 100"
    by (simp add: monitor_history_fifo d)
  moreover have "mon_errorRate (getStats newMonitor) = Num 0"
    by (simp add: monitor_errorRate newMonitor_def)
  moreover have "errorRate (opt_getStats (Num 1) None (newOptimizer (Num 0) None)) = NaN"
    by (simp add: opt_getStats_def newOptimizer_def Let_def)
  moreover have "length (measurements
     (fold optimizerCall (replicate 101 (OptEndTiming (Num 1) (Num 0) ''lipsync-processing''))
        (newOptimizer (Num 0) None))) = 101"
    unfolding optimizer_measurements_grow by (simp add: newOptimizer_def)
  ultimately show ?thesis by blast
qed

subsection \<open>Adaptive optimizer\<close>

lemma slice_last3_append: "slice_last3 (h @ [e1, e2, e3]) = [e1, e2, e3]"
  by (simp add: slice_last3_def)

lemma last3_exists: "3 \<le> length xs \<Longrightarrow> \<exists>h e1 e2 e3. xs = h @ [e1, e2, e3]"
proof -
  assume l: "3 \<le> length xs"
  define t where "t = drop (length xs - 3) xs"
  have "length t = 3" using l by (simp add: t_def)
  then obtain e1 e2 e3 where "t = [e1, e2, e3]"
    by (auto simp: length_Suc_conv numeral_3_eq_3)
  moreover have "xs = take (length xs - 3) xs @ t" by (simp add: t_def)
  ultimately show ?thesis by metis
qed

lemma thresholds:
  "MAX_PROCESSING_TIME OPTIMAL_performance = Num 1"
  "js_mul (TARGET_FPS OPTIMAL_performance) (Num 0.8) = Num 48"
  by (simp_all add: OPTIMAL_performance_def)

lemma shouldAdapt_last3:
  assumes "performanceHistory s = h @ [e1, e2, e3]"
  shows "shouldAdapt s \<longleftrightarrow>
     adaptationCount s < maxAdaptations s
     \<and> (js_gt (js_div (js_add (js_add (js_add (Num 0) (averageProcessingTime (stats e1)))
                  (averageProcessingTime (stats e2))) (averageProcessingTime (stats e3))) (Num 3))
              (Num 1)
        \<or> js_lt (js_div (js_add (js_add (js_add (Num 0) (averageFPS (stats e1)))
                  (averageFPS (stats e2))) (averageFPS (stats e3))) (Num 3))
              (Num 48))"
  unfolding shouldAdapt_def assms slice_last3_append Let_def thresholds
  by (simp add: not_le)

lemma shouldAdapt_needs:
  "shouldAdapt s \<Longrightarrow> adaptationCount s < maxAdaptations s \<and> 3 \<le> length (performanceHistory s)"
  by (simp add: shouldAdapt_def split: if_splits)

lemma adaptiveCall_invariant:
  assumes "maxAdaptations s = 5" "adaptationCount s \<le> 5"
    "length (performanceHistory s) = min 10 k"
    "k < 3 \<longrightarrow> adaptationCount s = 0 \<and> currentConfig s = c0"
  shows "maxAdaptations (adaptiveCall c s) = 5 \<and> adaptationCount (adaptiveCall c s) \<le> 5
    \<and> length (performanceHistory (adaptiveCall c s)) = min 10 (k + (if isAnalyze c then 1 else 0))
    \<and> (k + (if isAnalyze c then 1 else 0) < 3
         \<longrightarrow> adaptationCount (adaptiveCall c s) = 0 \<and> currentConfig (adaptiveCall c s) = c0)"
proof (cases c)
  case (AnalyzePerformance now st)
  then show ?thesis using assms
    by (auto simp: analyzePerformance_def Let_def min_def)
next
  case AdaptConfiguration
  show ?thesis
  proof (cases "shouldAdapt s")
    case True
    from shouldAdapt_needs[OF True] assms have "adaptationCount s < 5" "3 \<le> k"
      by (auto simp: min_def split: if_splits)
    then show ?thesis using assms True AdaptConfiguration
      by (simp add: adaptConfiguration_def Let_def)
  next
    case False
    then show ?thesis using assms AdaptConfiguration
      by (simp add: adaptConfiguration_def)
  qed
qed

lemma fold_adaptiveCall_invariant:
  assumes "maxAdaptations s = 5" "adaptationCount s \<le> 5"
    "length (performanceHistory s) = min 10 k"
    "k < 3 \<longrightarrow> adaptationCount s = 0 \<and> currentConfig s = c0"
  shows "maxAdaptations (fold adaptiveCall calls s) = 5
    \<and> adaptationCount (fold adaptiveCall calls s) \<le> 5
    \<and> length (performanceHistory (fold adaptiveCall calls s))
         = min 10 (k + length (filter isAnalyze calls))
    \<and> (k + length (filter isAnalyze calls) < 3
         \<longrightarrow> adaptationCount (fold adaptiveCall calls s) = 0
             \<and> currentConfig (fold adaptiveCall calls s) = c0)"
  using assms
proof (induction calls arbitrary: s k)
  case Nil
  then show ?case by simp
next
  case (Cons c calls)
  from adaptiveCall_invariant[OF Cons.prems, of c]
  have i: "maxAdaptations (adaptiveCall c s) = 5" "adaptationCount (adaptiveCall c s) \<le> 5"
    "length (performanceHistory (adaptiveCall c s)) = min 10 (k + (if isAnalyze c then 1 else 0))"
    "k + (if isAnalyze c then 1 else 0) < 3
         \<longrightarrow> adaptationCount (adaptiveCall c s) = 0 \<and> currentConfig (adaptiveCall c s) = c0"
    by blast+
  from Cons.IH[OF i] show ?case by (simp add: add.assoc)
qed

lemma adaptationCount_mono:
  "adaptationCount s \<le> adaptationCount (adaptiveCall c s)"
  by (cases c) (simp_all add: analyzePerformance_def adaptConfiguration_def Let_def)

text \<open>
  Claim C6. shouldAdapt holds only when the adaptation counter is below the cap and at
  least 3 snapshots are recorded; with the last three snapshots e1, e2, e3 it holds exactly
  when the counter is below the cap and the average of their processing times exceeds 1.0
  or the average of their frame rates is below 48, which is 80 percent of 60 (for finite
  values the average is (a + b + c) / 3). Over every sequence of analyzePerformance and
  adaptConfiguration calls on a new optimizer, the cap stays 5, the counter never exceeds
  5 and never decreases, and as long as fewer than 3 snapshots have been recorded the
  counter is 0 and the configuration is the initial one.
\<close>

theorem shouldAdapt_gating_and_cap:
  "(shouldAdapt s \<longrightarrow>
       adaptationCount s < maxAdaptations s \<and> 3 \<le> length (performanceHistory s))
   \<and> (\<forall>h e1 e2 e3. performanceHistory s = h @ [e1, e2, e3] \<longrightarrow>
        (shouldAdapt s \<longleftrightarrow>
           adaptationCount s < maxAdaptations s
           \<and> (js_gt (js_div (js_add (js_add (js_add (Num 0) (averageProcessingTime (stats e1)))
                  (averageProcessingTime (stats e2))) (averageProcessingTime (stats e3))) (Num 3))
                 (Num 1)
              \<or> js_lt (js_div (js_add (js_add (js_add (Num 0) (averageFPS (stats e1)))
                  (averageFPS (stats e2))) (averageFPS (stats e3))) (Num 3))
                 (Num 48))))
   \<and> js_div (js_add (js_add (js_add (Num 0) (Num a)) (Num b)) (Num c)) (Num 3)
        = Num ((a + b + c) / 3)
   \<and> maxAdaptations (fold adaptiveCall calls (newAdaptiveOptimizer ua)) = 5
   \<and> adaptationCount (fold adaptiveCall calls (newAdaptiveOptimizer ua)) \<le> 5
   \<and> (length (filter isAnalyze calls) < 3 \<longrightarrow>
         adaptationCount (fold adaptiveCall calls (newAdaptiveOptimizer ua)) = 0
         \<and> currentConfig (fold adaptiveCall calls (newAdaptiveOptimizer ua))
             = detectBrowserAndOptimize ua)
   \<and> adaptationCount (fold adaptiveCall calls (newAdaptiveOptimizer ua))
        \<le> adaptationCount (fold adaptiveCall (calls @ [call]) (newAdaptiveOptimizer ua))"
proof -
  have i: "maxAdaptations (newAdaptiveOptimizer ua) = 5"
    "adaptationCount (newAdaptiveOptimizer ua) \<le> 5"
    "length (performanceHistory (newAdaptiveOptimizer ua)) = min 10 0"
    "0 < (3::nat) \<longrightarrow> adaptationCount (newAdaptiveOptimizer ua) = 0
        \<and> currentConfig (newAdaptiveOptimizer ua) = detectBrowserAndOptimize ua"
    by (simp_all add: newAdaptiveOptimizer_def)
  note inv = fold_adaptiveCall_invariant[OF i, of calls]
  have m: "adaptationCount (fold adaptiveCall calls (newAdaptiveOptimizer ua))
        \<le> adaptationCount (fold adaptiveCall (calls @ [call]) (newAdaptiveOptimizer ua))"
    by (simp add: adaptationCount_mono)
  have l: "\<forall>h e1 e2 e3. performanceHistory s = h @ [e1, e2, e3] \<longrightarrow>
        (shouldAdapt s \<longleftrightarrow>
           adaptationCount s < maxAdaptations s
           \<and> (js_gt (js_div (js_add (js_add (js_add (Num 0) (averageProcessingTime (stats e1)))
                  (averageProcessingTime (stats e2))) (averageProcessingTime (stats e3))) (Num 3))
                 (Num 1)
              \<or> js_lt (js_div (js_add (js_add (js_add (Num 0) (averageFPS (stats e1)))
                  (averageFPS (stats e2))) (averageFPS (stats e3))) (Num 3))
                 (Num 48)))"
    using shouldAdapt_last3 by blast
  have a: "js_div (js_add (js_add (js_add (Num 0) (Num a)) (Num b)) (Num c)) (Num 3)
        = Num ((a + b + c) / 3)"
    by simp
  from shouldAdapt_needs[of s] l a inv m show ?thesis by simp
qed


theorem shouldAdapt_gating_and_cap_witness:
  "length (filter isAnalyze
      [AnalyzePerformance (Num 0) poorStats, AnalyzePerformance (Num 1) poorStats,
       AdaptConfiguration]) < 3
   \<and> adaptationCount (fold adaptiveCall
        [AnalyzePerformance (Num 0) poorStats, AnalyzePerformance (Num 1) poorStats,
         AdaptConfiguration] (newAdaptiveOptimizer ''chrome'')) = 0
   \<and> shouldAdapt (fold adaptiveCall
        [AnalyzePerformance (Num 0) poorStats, AnalyzePerformance (Num 1) poorStats,
         AnalyzePerformance (Num 2) poorStats] (newAdaptiveOptimizer ''chrome''))
   \<and> adaptationCount (fold adaptiveCall
        ([AnalyzePerformance (Num 0) poorStats, AnalyzePerformance (Num 1) poorStats,
         AnalyzePerformance (Num 2) poorStats] @ replicate 7 AdaptConfiguration)
        (newAdaptiveOptimizer ''chrome'')) = 5"
proof -
  define two where "two = [AnalyzePerformance (Num 0) poorStats,
      AnalyzePerformance (Num 1) poorStats, AdaptConfiguration]"
  define three where "three = [AnalyzePerformance (Num 0) poorStats,
      AnalyzePerformance (Num 1) poorStats, AnalyzePerformance (Num 2) poorStats]"
  define s3 where "s3 = fold adaptiveCall three (newAdaptiveOptimizer ''chrome'')"
  have h: "length (filter isAnalyze two) < 3" by (simp add: two_def)
  have 1: "adaptationCount (fold adaptiveCall two (newAdaptiveOptimizer ''chrome'')) = 0"
    using shouldAdapt_gating_and_cap[of _ _ _ _ two "''chrome''"] h by blast
  have hist: "performanceHistory s3 = [] @
      [\<lparr>timestamp = Num 0, stats = poorStats, config = detectBrowserAndOptimize ''chrome''\<rparr>,
       \<lparr>timestamp = Num 1, stats = poorStats, config = detectBrowserAndOptimize ''chrome''\<rparr>,
       \<lparr>timestamp = Num 2, stats = poorStats, config = detectBrowserAndOptimize ''chrome''\<rparr>]"
    and cnt: "adaptationCount s3 = 0" "maxAdaptations s3 = 5"
    by (simp_all add: s3_def three_def analyzePerformance_def newAdaptiveOptimizer_def)
  have 2: "shouldAdapt s3"
    using shouldAdapt_gating_and_cap[of s3, THEN conjunct2, THEN conjunct1, rule_format, OF hist]
    by (simp add: cnt poorStats_def js_gt_def)
  have sa: "shouldAdapt s \<longleftrightarrow> adaptationCount s < 5"
    if "performanceHistory s = performanceHistory s3" "maxAdaptations s = 5" for s
    using shouldAdapt_last3[of s "[]"] that hist by (simp add: poorStats_def js_gt_def)
  have adv: "performanceHistory (adaptiveCall AdaptConfiguration s) = performanceHistory s3
      \<and> maxAdaptations (adaptiveCall AdaptConfiguration s) = 5
      \<and> adaptationCount (adaptiveCall AdaptConfiguration s) = min 5 (adaptationCount s + 1)"
    if "performanceHistory s = performanceHistory s3" "maxAdaptations s = 5"
      "adaptationCount s \<le> 5" for s
    using sa[OF that(1,2)] that by (auto simp: adaptConfiguration_def Let_def)
  have it: "adaptationCount (fold adaptiveCall (replicate n AdaptConfiguration) s)
      = min 5 (adaptationCount s + n)"
    if "performanceHistory s = performanceHistory s3" "maxAdaptations s = 5"
      "adaptationCount s \<le> 5" for s n
    using that
  proof (induction n arbitrary: s)
    case 0
    then show ?case by simp
  next
    case (Suc n)
    from adv[OF Suc.prems] have a:
      "performanceHistory (adaptiveCall AdaptConfiguration s) = performanceHistory s3"
      "maxAdaptations (adaptiveCall AdaptConfiguration s) = 5"
      "adaptationCount (adaptiveCall AdaptConfiguration s) = min 5 (adaptationCount s + 1)"
      by blast+
    from a(3) have b: "adaptationCount (adaptiveCall AdaptConfiguration s) \<le> 5" by simp
    from Suc.IH[OF a(1,2) b] a(3) show ?case by (simp add: min_def)
  qed
  have 3: "adaptationCount (fold adaptiveCall (replicate 7 AdaptConfiguration) s3) = 5"
    using it[of s3 7] cnt by simp
  have "fold adaptiveCall (three @ replicate 7 AdaptConfiguration) (newAdaptiveOptimizer ''chrome'')
      = fold adaptiveCall (replicate 7 AdaptConfiguration) s3"
    unfolding s3_def fold_append by simp
  with 3 have 4: "adaptationCount (fold adaptiveCall (three @ replicate 7 AdaptConfiguration)
      (newAdaptiveOptimizer ''chrome'')) = 5"
    by simp
  from h 1 2 4 show ?thesis
    unfolding two_def three_def s3_def by (intro conjI)
qed

text \<open>
  Claim C10. Whenever shouldAdapt is false, adaptConfiguration returns the current
  configuration and leaves the optimizer, with its counter and its configuration, as it
  was. This covers each of the three reasons: fewer than 3 snapshots, the counter at its
  cap, and recent averages within the thresholds. When shouldAdapt is true the call
  does advance the counter by one.
\<close>

theorem adaptConfiguration_noop:
  "(\<not> shouldAdapt s \<longrightarrow> adaptConfiguration s = (currentConfig s, s))
   \<and> (length (performanceHistory s) < 3 \<longrightarrow> adaptConfiguration s = (currentConfig s, s))
   \<and> (maxAdaptations s \<le> adaptationCount s \<longrightarrow> adaptConfiguration s = (currentConfig s, s))
   \<and> (\<forall>h e1 e2 e3. performanceHistory s = h @ [e1, e2, e3]
         \<and> \<not> js_gt (js_div (js_add (js_add (js_add (Num 0) (averageProcessingTime (stats e1)))
                  (averageProcessingTime (stats e2))) (averageProcessingTime (stats e3))) (Num 3))
                 (Num 1)
         \<and> \<not> js_lt (js_div (js_add (js_add (js_add (Num 0) (averageFPS (stats e1)))
                  (averageFPS (stats e2))) (averageFPS (stats e3))) (Num 3))
                 (Num 48)
        \<longrightarrow> adaptConfiguration s = (currentConfig s, s))
   \<and> (shouldAdapt s \<longrightarrow>
         adaptationCount (snd (adaptConfiguration s)) = adaptationCount s + 1
         \<and> fst (adaptConfiguration s) = currentConfig (snd (adaptConfiguration s)))"
proof -
  have n: "\<not> shouldAdapt s \<Longrightarrow> adaptConfiguration s = (currentConfig s, s)"
    by (simp add: adaptConfiguration_def)
  have a: "length (performanceHistory s) < 3 \<Longrightarrow> \<not> shouldAdapt s"
    and b: "maxAdaptations s \<le> adaptationCount s \<Longrightarrow> \<not> shouldAdapt s"
    by (simp_all add: shouldAdapt_def)
  have c: "\<not> shouldAdapt s"
    if "performanceHistory s = h @ [e1, e2, e3]"
      "\<not> js_gt (js_div (js_add (js_add (js_add (Num 0) (averageProcessingTime (stats e1)))
                  (averageProcessingTime (stats e2))) (averageProcessingTime (stats e3))) (Num 3))
                 (Num 1)"
      "\<not> js_lt (js_div (js_add (js_add (js_add (Num 0) (averageFPS (stats e1)))
                  (averageFPS (stats e2))) (averageFPS (stats e3))) (Num 3))
                 (Num 48)" for h e1 e2 e3
    using shouldAdapt_last3[OF that(1)] that(2,3) by simp
  have d: "shouldAdapt s \<Longrightarrow>
         adaptationCount (snd (adaptConfiguration s)) = adaptationCount s + 1
         \<and> fst (adaptConfiguration s) = currentConfig (snd (adaptConfiguration s))"
    by (simp add: adaptConfiguration_def Let_def)
  from n a b c d show ?thesis by blast
qed

theorem adaptConfiguration_noop_witness:
  "length (performanceHistory (newAdaptiveOptimizer ''firefox'')) < 3
   \<and> adaptConfiguration (newAdaptiveOptimizer ''firefox'')
       = (detectBrowserAndOptimize ''firefox'', newAdaptiveOptimizer ''firefox'')
   \<and> maxAdaptations ((newAdaptiveOptimizer ''firefox'')\<lparr>adaptationCount := 5\<rparr>)
       \<le> adaptationCount ((newAdaptiveOptimizer ''firefox'')\<lparr>adaptationCount := 5\<rparr>)
   \<and> adaptConfiguration ((newAdaptiveOptimizer ''firefox'')\<lparr>adaptationCount := 5\<rparr>)
       = (detectBrowserAndOptimize ''firefox'', (newAdaptiveOptimizer ''firefox'')\<lparr>adaptationCount := 5\<rparr>)"
proof -
  define s where "s = newAdaptiveOptimizer ''firefox''"
  have h1: "length (performanceHistory s) < 3"
    and h2: "maxAdaptations (s\<lparr>adaptationCount := 5\<rparr>) \<le> adaptationCount (s\<lparr>adaptationCount := 5\<rparr>)"
    and c: "currentConfig s = detectBrowserAndOptimize ''firefox''"
    by (simp_all add: s_def newAdaptiveOptimizer_def)
  have 1: "adaptConfiguration s = (currentConfig s, s)"
    using adaptConfiguration_noop[of s] h1 by blast
  have 2: "adaptConfiguration (s\<lparr>adaptationCount := 5\<rparr>)
      = (currentConfig (s\<lparr>adaptationCount := 5\<rparr>), s\<lparr>adaptationCount := 5\<rparr>)"
    using adaptConfiguration_noop[of "s\<lparr>adaptationCount := 5\<rparr>"] h2 by blast
  from h1 h2 1 2 c show ?thesis unfolding s_def by simp
qed

end
